theory Spec2Isabelle
  imports Complex_Main "HOL-Library.FSet"
begin

section \<open>Python values\<close>

text \<open>
  A Python \<^verbatim>\<open>str\<close> is a sequence of Unicode code points, so \<^verbatim>\<open>len\<close> counts code
  points and the Persian texts the bot reads are one element per letter. A code point is
  a natural number; \<open>str\<close> turns an ASCII literal into that representation.
\<close>

type_synonym pystr = "nat list"

definition str :: "string \<Rightarrow> pystr" where
  "str s = map of_char s"

text \<open>
  \<^verbatim>\<open>str.strip()\<close> without argument removes leading and trailing white space, which
  for \<^verbatim>\<open>str\<close> is the set of code points on which \<^verbatim>\<open>isspace()\<close> holds.
\<close>

definition isspace :: "nat \<Rightarrow> bool" where
  "isspace c \<longleftrightarrow>
     (9 \<le> c \<and> c \<le> 13) \<or> (28 \<le> c \<and> c \<le> 32) \<or> c = 133 \<or> c = 160 \<or> c = 5760 \<or>
     (8192 \<le> c \<and> c \<le> 8202) \<or> c = 8232 \<or> c = 8233 \<or> c = 8239 \<or> c = 8287 \<or> c = 12288"

definition lstrip :: "pystr \<Rightarrow> pystr" where
  "lstrip s = dropWhile isspace s"

definition rstrip :: "pystr \<Rightarrow> pystr" where
  "rstrip s = rev (dropWhile isspace (rev s))"

definition strip :: "pystr \<Rightarrow> pystr" where
  "strip s = rstrip (lstrip s)"

text \<open>\<^verbatim>\<open>s.split(sep)\<close> for a one-character separator: the empty string gives one empty field.\<close>

fun split :: "nat \<Rightarrow> pystr \<Rightarrow> pystr list" where
  "split sep [] = [[]]"
| "split sep (c # cs) =
     (if c = sep then [] # split sep cs
      else (case split sep cs of [] \<Rightarrow> [[c]] | f # fs \<Rightarrow> (c # f) # fs))"

text \<open>\<^verbatim>\<open>sep.join(fields)\<close>, the inverse used to characterise \<open>split\<close>.\<close>

fun join :: "nat \<Rightarrow> pystr list \<Rightarrow> pystr" where
  "join sep [] = []"
| "join sep [f] = f"
| "join sep (f # g # fs) = f @ sep # join sep (g # fs)"

text \<open>\<^verbatim>\<open>s.startswith(p)\<close> and the substring test \<^verbatim>\<open>p in s\<close>.\<close>

fun startswith :: "pystr \<Rightarrow> pystr \<Rightarrow> bool" where
  "startswith s [] = True"
| "startswith [] (p # ps) = False"
| "startswith (c # cs) (p # ps) = (c = p \<and> startswith cs ps)"

fun contains :: "pystr \<Rightarrow> pystr \<Rightarrow> bool" where
  "contains [] p = (p = [])"
| "contains (c # cs) p = (startswith (c # cs) p \<or> contains cs p)"

text \<open>Truthiness of an optional string: \<^verbatim>\<open>None\<close> and \<^verbatim>\<open>''\<close> are false.\<close>

fun truthy :: "pystr option \<Rightarrow> bool" where
  "truthy None = False"
| "truthy (Some s) = (s \<noteq> [])"

section \<open>The message processor (message_processor.py)\<close>

subsection \<open>Library functions and the outside world\<close>

text \<open>
  What the source takes from the Python library and does not define itself is a field of
  \<open>runtime\<close>: Unicode lower-casing, \<^verbatim>\<open>int()\<close>, \<^verbatim>\<open>bytes.fromhex\<close> (\<open>None\<close>
  where Python raises \<^verbatim>\<open>ValueError\<close>), the iteration order of a \<^verbatim>\<open>set\<close>,
  \<^verbatim>\<open>re.search\<close> with the phone and the email pattern (whose classes \<^verbatim>\<open>\d\<close>
  and \<^verbatim>\<open>\b\<close> depend on the Unicode tables), \<^verbatim>\<open>os.path.join\<close> and the directory
  of the module. Every theorem below holds for each runtime.
\<close>

record runtime =
  py_lower :: "pystr \<Rightarrow> pystr"
  py_int :: "pystr \<Rightarrow> int option"
  bytes_fromhex :: "pystr \<Rightarrow> nat list option"
  list_of_set :: "int fset \<Rightarrow> int list"
  re_search_phone :: "pystr \<Rightarrow> pystr option"
  re_search_email :: "pystr \<Rightarrow> pystr option"
  path_join :: "pystr \<Rightarrow> pystr \<Rightarrow> pystr"
  module_dir :: pystr

text \<open>
  Exceptions are the subclasses of \<^verbatim>\<open>Exception\<close> the source tells apart; every other
  subclass is \<open>OtherException\<close>. \<open>FloodWaitError\<close> carries its \<^verbatim>\<open>seconds\<close>,
  \<open>ValueError\<close> its message.
\<close>

datatype exn = FloodWaitError nat | ValueError string | UserPrivacyRestrictedError | OtherException

datatype level = DEBUG | INFO | WARNING | ERROR

type_synonym entity = nat

text \<open>
  The trace of one call: log records (level and the format string of the source) and the
  requests made to the messaging client and to the language model, in program order. A
  request is recorded when it is made, whether it then succeeds or raises.
\<close>

datatype action =
    Log level string
  | GetEntity pystr
  | SendMessage entity pystr
  | SendFile entity pystr pystr
  | GenerateContent pystr

text \<open>The configuration dictionary, with the keys and value types \<open>validate_config\<close> produces.\<close>

record config =
  api_id :: int
  api_hash :: pystr
  gemini_api_key :: pystr
  channels :: "pystr list"
  portfolio_url :: pystr
  cv_url :: "pystr option"
  proxy_type :: "pystr option"
  proxy_server :: "pystr option"
  proxy_port :: "int option"
  proxy_secret :: "pystr option"
  resume_filename :: pystr

datatype generative_model = GenerativeModel pystr

text \<open>The attributes of a \<^verbatim>\<open>MessageProcessor\<close>. The clock is \<^verbatim>\<open>loop.time()\<close>, in seconds.\<close>

record processor =
  config :: config
  processed_messages :: "int fset"
  last_message_time :: "pystr \<rightharpoonup> real"
  model :: "generative_model option"

text \<open>\<^verbatim>\<open>self.rate_limit_delay\<close> is set to 30 in \<^verbatim>\<open>__init__\<close> and never assigned again.\<close>

definition rate_limit_delay :: real where
  "rate_limit_delay = 30"

text \<open>
  What the outside world answers during one call of \<open>process_message\<close>: the clock, the
  entity lookup, the outcome of each request (\<open>None\<close>: it returned, \<open>Some e\<close>: it raised
  \<open>e\<close>), which files exist, and the outcome of the completion request together with
  reading \<^verbatim>\<open>response.text\<close>.
\<close>

record env =
  time_now :: real
  get_entity :: "pystr \<Rightarrow> exn + entity"
  send_text :: "exn option"
  path_exists :: "pystr \<Rightarrow> bool"
  send_file :: "exn option"
  send_link :: "exn option"
  generate_content :: "pystr \<Rightarrow> exn + pystr"

record event =
  message_text :: "pystr option"
  message_id :: int

subsection \<open>Constants of the source\<close>

definition UI_KEYWORDS :: "pystr list" where
  "UI_KEYWORDS = [
    str ''UI'', str ''UX'', str ''interface'', str ''figma'', str ''sketch'', str ''adobe xd'',
    [1601, 1585, 1575, 1606, 1578],
    [1591, 1585, 1575, 1581, 1740, 32, 1585, 1575, 1576, 1591],
    [1585, 1575, 1576, 1591, 32, 1705, 1575, 1585, 1576, 1585, 1740],
    [1578, 1580, 1585, 1576, 1607, 32, 1705, 1575, 1585, 1576, 1585, 1740],
    str ''ui designer'', str ''ux designer'',
    [1601, 1740, 1711, 1605, 1575],
    [1591, 1585, 1575, 1581, 32, 1585, 1575, 1576, 1591],
    str ''front-end'', str ''frontend'',
    [1608, 1576, 32, 1583, 1740, 1586, 1575, 1740, 1606],
    str ''web design'', str ''mobile design'', str ''app design'',
    [1591, 1585, 1575, 1581, 1740, 32, 1575, 1662, 1604, 1740, 1705, 1740, 1588, 1606],
    str ''wireframe'', str ''prototype'', str ''mockup'',
    [1591, 1585, 1575, 1581, 1740, 32, 1605, 1608, 1705, 1575, 1662]]"

text \<open>The fallback template, as code points.\<close>

definition get_fallback_message :: pystr where
  "get_fallback_message = [
    127912, 32, 1587, 1604, 1575, 1605, 32, 1608, 32, 1608, 1602, 1578, 32, 1576, 1582,
    1740, 1585, 10, 10, 1576, 1575, 32, 1578, 1608, 1580, 1607, 32, 1576, 1607, 32,
    1570, 1711, 1607, 1740, 32, 1588, 1605, 1575, 32, 1583, 1585, 32, 1586, 1605, 1740,
    1606, 1607, 32, 1591, 1585, 1575, 1581, 1740, 32, 85, 73, 47, 85, 88, 1548, 32,
    1578, 1605, 1575, 1740, 1604, 32, 1583, 1575, 1585, 1605, 32, 1583, 1585, 32, 1575,
    1740, 1606, 32, 1662, 1585, 1608, 1688, 1607, 32, 1607, 1605, 1705, 1575, 1585,
    1740, 32, 1705, 1606, 1605, 46, 32, 10, 1670, 1606, 1583, 1740, 1606, 32, 1587,
    1575, 1604, 32, 1578, 1580, 1585, 1576, 1607, 32, 1583, 1585, 32, 1591, 1585, 1575,
    1581, 1740, 32, 1585, 1575, 1576, 1591, 32, 1705, 1575, 1585, 1576, 1585, 1740, 32,
    1608, 32, 1578, 1580, 1585, 1576, 1607, 32, 1705, 1575, 1585, 1576, 1585, 1740, 32,
    1583, 1575, 1585, 1605, 46, 10, 10, 1583, 1585, 32, 1575, 1583, 1575, 1605, 1607,
    32, 1606, 1605, 1608, 1606, 1607, 32, 1705, 1575, 1585, 1607, 1575, 32, 1608, 32,
    1585, 1586, 1608, 1605, 1607, 32, 1582, 1608, 1583, 32, 1585, 1575, 32, 1575, 1585,
    1587, 1575, 1604, 32, 1605, 1740, 8204, 1705, 1606, 1605, 46, 10, 10, 1576, 1575,
    32, 1578, 1588, 1705, 1585, 32, 128591]"

text \<open>The prompt is an f-string: a fixed text, the job post, a fixed text.\<close>

definition prompt_prefix :: pystr where
  "prompt_prefix = [
    10, 1576, 1575, 32, 1578, 1608, 1580, 1607, 32, 1576, 1607, 32, 1570, 1711, 1607,
    1740, 32, 1575, 1587, 1578, 1582, 1583, 1575, 1605, 32, 1586, 1740, 1585, 1548, 32,
    1740, 1705, 32, 1662, 1740, 1575, 1605, 32, 1581, 1585, 1601, 1607, 8204, 1575,
    1740, 32, 1608, 32, 1583, 1608, 1587, 1578, 1575, 1606, 1607, 32, 1576, 1607, 32,
    1586, 1576, 1575, 1606, 32, 1601, 1575, 1585, 1587, 1740, 32, 1576, 1585, 1575,
    1740, 32, 1575, 1585, 1587, 1575, 1604, 32, 1576, 1607, 32, 1705, 1575, 1585, 1601,
    1585, 1605, 1575, 32, 1576, 1606, 1608, 1740, 1587, 46, 32, 1662, 1740, 1575, 1605,
    32, 1576, 1575, 1740, 1583, 58, 10, 10, 49, 46, 32, 1605, 1608, 1583, 1576, 1575,
    1606, 1607, 32, 1608, 32, 1581, 1585, 1601, 1607, 8204, 1575, 1740, 32, 1576, 1575,
    1588, 1583, 10, 50, 46, 32, 1575, 1588, 1578, 1740, 1575, 1602, 32, 1608, 32, 1593,
    1604, 1575, 1602, 1607, 32, 1576, 1607, 32, 1607, 1605, 1705, 1575, 1585, 1740, 32,
    1585, 1575, 32, 1606, 1588, 1575, 1606, 32, 1583, 1607, 1583, 10, 51, 46, 32, 1576,
    1607, 32, 1591, 1608, 1585, 32, 1582, 1604, 1575, 1589, 1607, 32, 1576, 1607, 32,
    1578, 1580, 1585, 1576, 1607, 32, 1605, 1585, 1578, 1576, 1591, 32, 1583, 1585, 32,
    1586, 1605, 1740, 1606, 1607, 32, 1591, 1585, 1575, 1581, 1740, 32, 85, 73, 47, 85,
    88, 32, 1575, 1588, 1575, 1585, 1607, 32, 1705, 1606, 1583, 10, 52, 46, 32, 1581,
    1583, 1575, 1705, 1579, 1585, 32, 51, 45, 52, 32, 1582, 1591, 32, 1576, 1575, 1588,
    1583, 10, 53, 46, 32, 1576, 1575, 32, 1740, 1705, 32, 1575, 1740, 1605, 1608, 1580,
    1740, 32, 1605, 1606, 1575, 1587, 1576, 32, 1588, 1585, 1608, 1593, 32, 1588, 1608,
    1583, 10, 54, 46, 32, 1576, 1607, 32, 1583, 1585, 1582, 1608, 1575, 1587, 1578, 32,
    1575, 1585, 1587, 1575, 1604, 32, 1606, 1605, 1608, 1606, 1607, 32, 1705, 1575,
    1585, 32, 1740, 1575, 32, 1585, 1586, 1608, 1605, 1607, 32, 1575, 1588, 1575, 1585,
    1607, 32, 1705, 1606, 1583, 10, 10, 1605, 1578, 1606, 32, 1570, 1711, 1607, 1740,
    58, 10]"

definition prompt_suffix :: pystr where
  "prompt_suffix = [
    10, 10, 1662, 1740, 1575, 1605, 32, 1588, 1582, 1589, 1740, 8204, 1587, 1575, 1586,
    1740, 32, 1588, 1583, 1607, 58, 10]"

definition resume_caption :: pystr where
  "resume_caption = [
    128196, 32, 1585, 1586, 1608, 1605, 1607, 32, 1608, 32, 1587, 1608, 1575, 1576,
    1602, 32, 1705, 1575, 1585, 1740, 10, 127912, 32, 1606, 1605, 1608, 1606, 1607, 32,
    1705, 1575, 1585, 1607, 1575, 58, 32]"

definition portfolio_line :: pystr where
  "portfolio_line = [
    127912, 32, 1606, 1605, 1608, 1606, 1607, 32, 1705, 1575, 1585, 1607, 1575, 58, 32]"

subsection \<open>Classification and extraction\<close>

definition contains_ui_keywords :: "runtime \<Rightarrow> pystr \<Rightarrow> bool" where
  "contains_ui_keywords rt text =
     (let text_lower = py_lower rt text
      in list_ex (\<lambda>keyword. contains text_lower (py_lower rt keyword)) UI_KEYWORDS)"

text \<open>The class \<^verbatim>\<open>[a-zA-Z0-9_]\<close> of the handle pattern.\<close>

definition handle_char :: "nat \<Rightarrow> bool" where
  "handle_char c \<longleftrightarrow>
     (97 \<le> c \<and> c \<le> 122) \<or> (65 \<le> c \<and> c \<le> 90) \<or> (48 \<le> c \<and> c \<le> 57) \<or> c = 95"

text \<open>
  \<^verbatim>\<open>re.search(r'@([a-zA-Z0-9_]+)', text)\<close>: the leftmost \<^verbatim>\<open>@\<close> (code point 64) that
  is followed by a character of the class; the group is the longest run of the class
  after it.
\<close>

fun extract_username :: "pystr \<Rightarrow> pystr option" where
  "extract_username [] = None"
| "extract_username (c # cs) =
     (if c = 64 \<and> takeWhile handle_char cs \<noteq> [] then Some (takeWhile handle_char cs)
      else extract_username cs)"

record contact_info =
  username :: "pystr option"
  phone :: "pystr option"
  email :: "pystr option"

definition extract_contact_info :: "runtime \<Rightarrow> pystr \<Rightarrow> contact_info" where
  "extract_contact_info rt text =
     \<lparr>username = (case extract_username text of
                    None \<Rightarrow> None
                  | Some u \<Rightarrow> if u \<noteq> [] then Some u else None),
      phone = re_search_phone rt text,
      email = re_search_email rt text\<rparr>"






subsection \<open>Response generation\<close>

definition generate_custom_message :: "env \<Rightarrow> processor \<Rightarrow> pystr \<Rightarrow> pystr \<times> action list" where
  "generate_custom_message w s job_text =
     (case model s of
        None \<Rightarrow> (get_fallback_message, [])
      | Some m \<Rightarrow>
          (let prompt = prompt_prefix @ job_text @ prompt_suffix
           in case generate_content w prompt of
                Inr text \<Rightarrow> (strip text, [GenerateContent prompt])
              | Inl e \<Rightarrow>
                  (get_fallback_message,
                   [GenerateContent prompt, Log ERROR ''Error generating AI response: {e}''])))"

subsection \<open>Delivery\<close>

fun first_existing :: "(pystr \<Rightarrow> bool) \<Rightarrow> pystr list \<Rightarrow> pystr option" where
  "first_existing ex [] = None"
| "first_existing ex (p # ps) = (if ex p then Some p else first_existing ex ps)"

definition possible_paths :: "runtime \<Rightarrow> pystr \<Rightarrow> pystr list" where
  "possible_paths rt fname =
     [path_join rt (str ''resume'') fname,
      fname,
      path_join rt (path_join rt (module_dir rt) (str ''resume'')) fname,
      path_join rt (module_dir rt) fname]"

text \<open>
  \<open>send_resume_file\<close> returns \<open>Some e\<close> when it raises \<open>e\<close>. Only the attachment request
  is inside a \<^verbatim>\<open>try\<close>; a link message that raises leaves the function.
\<close>

definition send_resume_file ::
  "runtime \<Rightarrow> env \<Rightarrow> processor \<Rightarrow> entity \<Rightarrow> pystr \<Rightarrow> exn option \<times> action list" where
  "send_resume_file rt w s entity uname =
     (let resume_path = first_existing (path_exists w)
                          (possible_paths rt (resume_filename (config s)));
          url = portfolio_url (config s);
          link = SendMessage entity (portfolio_line @ url)
      in if truthy resume_path then
           (let attach = SendFile entity (the resume_path) (resume_caption @ url)
            in case send_file w of
                 None \<Rightarrow> (None, [attach, Log INFO ''Resume file sent to {username}''])
               | Some e \<Rightarrow>
                   (let tr = [attach, Log ERROR ''Error sending resume file to {username}: {e}'']
                    in if url \<noteq> [] then (send_link w, tr @ [link]) else (None, tr)))
         else
           (let tr = [Log WARNING ''Resume file not found at any of the expected paths'']
            in if url \<noteq> [] then (send_link w, tr @ [link]) else (None, tr)))"

text \<open>The two \<^verbatim>\<open>except\<close> clauses that close \<open>send_response_to_user\<close>.\<close>

fun send_handler :: "exn \<Rightarrow> processor \<Rightarrow> action list \<Rightarrow> (exn + bool) \<times> processor \<times> action list" where
  "send_handler (FloodWaitError n) s tr =
     (Inl (FloodWaitError n), s, tr @ [Log WARNING ''Flood wait error: {e.seconds} seconds''])"
| "send_handler e s tr =
     (Inr False, s, tr @ [Log ERROR ''Error sending message to {username}: {e}''])"

text \<open>
  The result is \<open>Inr b\<close> for \<^verbatim>\<open>return b\<close> and \<open>Inl e\<close> when \<open>e\<close> leaves the function.
\<close>

definition send_response_to_user ::
  "runtime \<Rightarrow> env \<Rightarrow> processor \<Rightarrow> pystr \<Rightarrow> pystr \<Rightarrow> (exn + bool) \<times> processor \<times> action list" where
  "send_response_to_user rt w s uname message =
     (let current_time = time_now w;
          last_time = (case last_message_time s uname of None \<Rightarrow> 0 | Some t \<Rightarrow> t)
      in if current_time - last_time < rate_limit_delay then
           (Inr False, s, [Log INFO ''Rate limiting: skipping message to {username}''])
         else
           (case get_entity w uname of
              Inl (ValueError m) \<Rightarrow>
                (Inr False, s, [GetEntity uname, Log WARNING ''User not found: {username}''])
            | Inl UserPrivacyRestrictedError \<Rightarrow>
                (Inr False, s,
                 [GetEntity uname, Log WARNING ''User privacy restricted: {username}''])
            | Inl e \<Rightarrow> send_handler e s [GetEntity uname]
            | Inr entity \<Rightarrow>
                (let tr = [GetEntity uname, SendMessage entity message]
                 in case send_text w of
                      Some e \<Rightarrow> send_handler e s tr
                    | None \<Rightarrow>
                        (let tr1 = tr @ [Log INFO ''Message sent to {username}''];
                             (r, tr2) = send_resume_file rt w s entity uname
                         in case r of
                              Some e \<Rightarrow> send_handler e s (tr1 @ tr2)
                            | None \<Rightarrow>
                                (Inr True,
                                 s\<lparr>last_message_time := (last_message_time s)(uname \<mapsto> current_time)\<rparr>,
                                 tr1 @ tr2)))))"

subsection \<open>The handler of one incoming message\<close>

text \<open>
  \<^verbatim>\<open>set(list(self.processed_messages)[-500:])\<close>: the last 500 elements in the iteration
  order of the set.
\<close>

definition cleanup :: "runtime \<Rightarrow> int fset \<Rightarrow> int fset" where
  "cleanup rt ids =
     (if fcard ids > 1000
      then (let l = list_of_set rt ids in fset_of_list (drop (length l - 500) l))
      else ids)"

text \<open>
  \<open>process_message\<close> returns nothing and lets no exception out: its body is one
  \<^verbatim>\<open>try\<close> whose handler logs.
\<close>

definition process_message :: "runtime \<Rightarrow> env \<Rightarrow> processor \<Rightarrow> event \<Rightarrow> processor \<times> action list" where
  "process_message rt w s ev =
     (if message_id ev |\<in>| processed_messages s then (s, [])
      else if \<not> truthy (message_text ev) \<or> length (strip (the (message_text ev))) < 10
      then (s, [])
      else
        (let text = the (message_text ev);
             tr0 = [Log DEBUG ''Processing message: {message_text[:100]}...'']
         in if \<not> contains_ui_keywords rt text then (s, tr0)
            else
              (let tr1 = tr0 @ [Log INFO ''UI/UX job posting detected''];
                   info = extract_contact_info rt text
               in case username info of
                    None \<Rightarrow> (s, tr1 @ [Log INFO ''No username found in message''])
                  | Some u \<Rightarrow>
                      (let tr2 = tr1 @ [Log INFO ''Found username: {username}''];
                           (custom_message, tr3) = generate_custom_message w s text;
                           (r, s', tr4) = send_response_to_user rt w s u custom_message;
                           tr = tr2 @ tr3 @ tr4
                       in case r of
                            Inl e \<Rightarrow> (s', tr @ [Log ERROR ''Error in process_message: {e}''])
                          | Inr False \<Rightarrow> (s', tr)
                          | Inr True \<Rightarrow>
                              (s'\<lparr>processed_messages :=
                                    cleanup rt (finsert (message_id ev) (processed_messages s'))\<rparr>,
                               tr @ [Log INFO ''Successfully processed and responded to job posting from {username}''])))))"

subsection \<open>Construction\<close>

text \<open>
  \<^verbatim>\<open>__init__\<close>; \<open>genai\<close> is the outcome of configuring the completion service and
  building the model object.
\<close>

definition init :: "config \<Rightarrow> exn option \<Rightarrow> processor \<times> action list" where
  "init cfg genai =
     (let s = \<lparr>config = cfg, processed_messages = {||}, last_message_time = Map.empty,
                model = None\<rparr>
      in if gemini_api_key cfg \<noteq> [] then
           (case genai of
              None \<Rightarrow> (s\<lparr>model := Some (GenerativeModel (str ''gemini-pro''))\<rparr>, [])
            | Some e \<Rightarrow> (s, [Log ERROR ''Failed to configure Gemini AI: {e}'']))
         else (s, [Log WARNING ''Gemini API key not provided'']))"

subsection \<open>How far a call of \<open>send_response_to_user\<close> gets\<close>

text \<open>
  The conditions, read off the control flow, under which each request is made: the text
  message is requested when the cooldown has elapsed and the handle resolves; the
  attachment when the text message went through and a resume file exists; the link
  message when the text message went through, a portfolio URL is configured, and the
  file is missing or its request raised.
\<close>

definition rate_limited :: "env \<Rightarrow> processor \<Rightarrow> pystr \<Rightarrow> bool" where
  "rate_limited w s uname \<longleftrightarrow>
     time_now w - (case last_message_time s uname of None \<Rightarrow> 0 | Some t \<Rightarrow> t) < rate_limit_delay"

definition text_requested :: "env \<Rightarrow> processor \<Rightarrow> pystr \<Rightarrow> bool" where
  "text_requested w s uname \<longleftrightarrow>
     \<not> rate_limited w s uname \<and> (case get_entity w uname of Inl e \<Rightarrow> False | Inr entity \<Rightarrow> True)"

definition text_sent :: "env \<Rightarrow> processor \<Rightarrow> pystr \<Rightarrow> bool" where
  "text_sent w s uname \<longleftrightarrow> text_requested w s uname \<and> send_text w = None"

definition resume_found :: "runtime \<Rightarrow> env \<Rightarrow> processor \<Rightarrow> bool" where
  "resume_found rt w s \<longleftrightarrow>
     truthy (first_existing (path_exists w) (possible_paths rt (resume_filename (config s))))"

definition file_requested :: "runtime \<Rightarrow> env \<Rightarrow> processor \<Rightarrow> pystr \<Rightarrow> bool" where
  "file_requested rt w s uname \<longleftrightarrow> text_sent w s uname \<and> resume_found rt w s"

definition link_requested :: "runtime \<Rightarrow> env \<Rightarrow> processor \<Rightarrow> pystr \<Rightarrow> bool" where
  "link_requested rt w s uname \<longleftrightarrow>
     text_sent w s uname \<and> portfolio_url (config s) \<noteq> [] \<and>
     (\<not> resume_found rt w s \<or> send_file w \<noteq> None)"

text \<open>
  The attachment step returns, rather than raises, in these cases: no link is configured,
  or the link message goes through, or the file is found and its request goes through.
\<close>

definition attachment_step_returns :: "runtime \<Rightarrow> env \<Rightarrow> processor \<Rightarrow> bool" where
  "attachment_step_returns rt w s \<longleftrightarrow>
     portfolio_url (config s) = [] \<or> send_link w = None \<or>
     (resume_found rt w s \<and> send_file w = None)"

fun is_flood_wait :: "exn \<Rightarrow> bool" where
  "is_flood_wait (FloodWaitError n) = True"
| "is_flood_wait e = False"

text \<open>The handler applied to a sequence of incoming messages, each with its own world.\<close>

fun run :: "runtime \<Rightarrow> processor \<Rightarrow> (env \<times> event) list \<Rightarrow> processor" where
  "run rt s [] = s"
| "run rt s ((w, ev) # rest) = run rt (fst (process_message rt w s ev)) rest"

text \<open>The log record written when a reply has been sent.\<close>

definition success_log :: action where
  "success_log = Log INFO ''Successfully processed and responded to job posting from {username}''"

text \<open>
  The truncation of the seen set happens in a call exactly when the call replies and the
  set, with the identifier added, has more than 1000 elements. \<open>never_truncates\<close> says
  that it happens in none of the calls of a run.
\<close>

definition truncates :: "runtime \<Rightarrow> env \<Rightarrow> processor \<Rightarrow> event \<Rightarrow> bool" where
  "truncates rt w s ev \<longleftrightarrow>
     success_log \<in> set (snd (process_message rt w s ev)) \<and>
     fcard (finsert (message_id ev) (processed_messages s)) > 1000"

fun never_truncates :: "runtime \<Rightarrow> processor \<Rightarrow> (env \<times> event) list \<Rightarrow> bool" where
  "never_truncates rt s [] = True"
| "never_truncates rt s ((w, ev) # rest) =
     (\<not> truncates rt w s ev \<and> never_truncates rt (fst (process_message rt w s ev)) rest)"

section \<open>The session handler (session_handler.py)\<close>

text \<open>
  The tuple handed to the client library: \<^verbatim>\<open>(type, server, port, True, None, None)\<close> for
  SOCKS5 and HTTP, \<^verbatim>\<open>(server, port, secret_bytes)\<close> for MTProto.
\<close>

datatype proxy = ProxyTuple pystr pystr int bool | MTProtoTuple pystr int "nat list"

fun truthy_int :: "int option \<Rightarrow> bool" where
  "truthy_int None = False"
| "truthy_int (Some n) = (n \<noteq> 0)"

definition get_proxy_config :: "runtime \<Rightarrow> config \<Rightarrow> proxy option \<times> action list" where
  "get_proxy_config rt cfg =
     (if \<not> (truthy (proxy_type cfg) \<and> truthy (proxy_server cfg) \<and> truthy_int (proxy_port cfg))
      then (None, [])
      else
        (let ptype = py_lower rt (the (proxy_type cfg));
             server = the (proxy_server cfg);
             port = the (proxy_port cfg)
         in if ptype = str ''socks5'' then (Some (ProxyTuple (str ''socks5'') server port True), [])
            else if ptype = str ''http'' then (Some (ProxyTuple (str ''http'') server port True), [])
            else if ptype = str ''mtproto'' then
              (if \<not> truthy (proxy_secret cfg)
               then (None, [Log ERROR ''MTProto proxy requires proxy_secret''])
               else (case bytes_fromhex rt (the (proxy_secret cfg)) of
                       None \<Rightarrow>
                         (None, [Log ERROR ''Invalid proxy_secret format. Must be hex string.''])
                     | Some secret_bytes \<Rightarrow> (Some (MTProtoTuple server port secret_bytes), [])))
            else (None, [Log WARNING ''Unsupported proxy type: {proxy_type}''])))"

record telegram_client =
  session_name :: string
  client_api_id :: int
  client_api_hash :: pystr
  proxy :: "proxy option"

definition create_client :: "runtime \<Rightarrow> config \<Rightarrow> telegram_client \<times> action list" where
  "create_client rt cfg =
     (let (proxy_config, tr) = get_proxy_config rt cfg;
          client = \<lparr>session_name = ''telegram_ui_bot_session'', client_api_id = api_id cfg,
                    client_api_hash = api_hash cfg, proxy = proxy_config\<rparr>
      in case proxy_config of
           Some p \<Rightarrow> (client, tr @ [Log INFO ''Creating client with {proxy_config[0]} proxy: {proxy_config[1]}:{proxy_config[2]}''])
         | None \<Rightarrow> (client, tr @ [Log INFO ''Creating client without proxy'']))"

section \<open>The configuration loader (config_validator.py)\<close>

text \<open>The environment is \<^verbatim>\<open>os.getenv\<close>: a map from variable names to strings.\<close>

type_synonym environ = "string \<Rightarrow> pystr option"

definition required_str :: "environ \<Rightarrow> string \<Rightarrow> exn + pystr" where
  "required_str getenv var_name =
     (if \<not> truthy (getenv var_name)
      then Inl (ValueError ''Required environment variable {var_name} is missing'')
      else Inr (the (getenv var_name)))"

definition required_int :: "runtime \<Rightarrow> environ \<Rightarrow> string \<Rightarrow> exn + int" where
  "required_int rt getenv var_name =
     (if \<not> truthy (getenv var_name)
      then Inl (ValueError ''Required environment variable {var_name} is missing'')
      else (case py_int rt (the (getenv var_name)) of
              None \<Rightarrow> Inl (ValueError ''Invalid type for {var_name}: expected {var_type.__name__}'')
            | Some n \<Rightarrow> Inr n))"

definition optional_str :: "environ \<Rightarrow> string \<Rightarrow> pystr option" where
  "optional_str getenv var_name =
     (if truthy (getenv var_name) then getenv var_name else None)"

definition optional_int :: "runtime \<Rightarrow> environ \<Rightarrow> string \<Rightarrow> int option \<times> action list" where
  "optional_int rt getenv var_name =
     (if truthy (getenv var_name)
      then (case py_int rt (the (getenv var_name)) of
              None \<Rightarrow>
                (None, [Log WARNING ''Invalid type for optional variable {var_name}: expected {var_type.__name__}''])
            | Some n \<Rightarrow> (Some n, []))
      else (None, []))"

text \<open>\<^verbatim>\<open>[ch.strip() for ch in channels if ch.strip()]\<close> over \<^verbatim>\<open>value.split(',')\<close>.\<close>

definition process_channels :: "pystr \<Rightarrow> pystr list" where
  "process_channels v = map strip (filter (\<lambda>ch. strip ch \<noteq> []) (split 44 v))"

definition validate_proxy_config :: "runtime \<Rightarrow> config \<Rightarrow> config \<times> action list" where
  "validate_proxy_config rt cfg =
     (case proxy_type cfg of
        None \<Rightarrow> (cfg, [])
      | Some ptype \<Rightarrow>
          if ptype = [] then (cfg, [])
          else
            (let lower = py_lower rt ptype;
                 (c1, tr1) =
                   (if lower \<notin> set [str ''socks5'', str ''http'', str ''mtproto'']
                    then (cfg\<lparr>proxy_type := None\<rparr>,
                          [Log WARNING ''Unsupported proxy type: {proxy_type}. Supported types: socks5, http, mtproto''])
                    else (cfg, []));
                 (c2, tr2) =
                   (if lower = str ''mtproto'' \<and> \<not> truthy (proxy_secret c1)
                    then (c1\<lparr>proxy_type := None\<rparr>, [Log WARNING ''MTProto proxy requires proxy_secret''])
                    else (c1, []));
                 (c3, tr3) =
                   (if truthy (proxy_server cfg) \<and> truthy_int (proxy_port cfg)
                    then (if the (proxy_port cfg) < 1 \<or> the (proxy_port cfg) > 65535
                          then (c2\<lparr>proxy_port := None\<rparr>, [Log WARNING ''Invalid proxy port: {proxy_port}''])
                          else (c2, []))
                    else (c2, [Log WARNING ''Proxy type specified but server/port missing'']))
             in (c3, tr1 @ tr2 @ tr3)))"

definition validate_url :: "string \<Rightarrow> pystr option \<Rightarrow> action list" where
  "validate_url url_key url =
     (if truthy url \<and> \<not> (startswith (the url) (str ''http://'') \<or> startswith (the url) (str ''https://''))
      then [Log WARNING ''Invalid URL format for {url_key}: {url}'']
      else [])"

definition validate_urls :: "config \<Rightarrow> action list" where
  "validate_urls cfg =
     validate_url ''portfolio_url'' (Some (portfolio_url cfg)) @ validate_url ''cv_url'' (cv_url cfg)"

text \<open>
  \<open>validate_config\<close>: the required variables in the order of \<^verbatim>\<open>REQUIRED_VARS\<close>, the
  channel list, then (\<open>load_optional\<close>) the optional variables, the default resume file
  name, and the proxy and URL checks, which only warn.
\<close>

definition load_optional ::
  "runtime \<Rightarrow> environ \<Rightarrow> int \<Rightarrow> pystr \<Rightarrow> pystr \<Rightarrow> pystr list \<Rightarrow> pystr \<Rightarrow> config \<times> action list" where
  "load_optional rt getenv v_api_id v_api_hash v_key chs v_url =
     (let (port, tr0) = optional_int rt getenv ''PROXY_PORT'';
          fname = optional_str getenv ''RESUME_FILENAME'';
          cfg = \<lparr>api_id = v_api_id, api_hash = v_api_hash, gemini_api_key = v_key,
                 channels = chs, portfolio_url = v_url,
                 cv_url = optional_str getenv ''CV_URL'',
                 proxy_type = optional_str getenv ''PROXY_TYPE'',
                 proxy_server = optional_str getenv ''PROXY_SERVER'',
                 proxy_port = port,
                 proxy_secret = optional_str getenv ''PROXY_SECRET'',
                 resume_filename =
                   (if truthy fname then the fname else str ''javad-rostami resume.pdf'')\<rparr>;
          (cfg', tr1) = validate_proxy_config rt cfg
      in (cfg',
          tr0 @ tr1 @ validate_urls cfg'
            @ [Log INFO ''Configuration validation completed successfully'']))"

definition validate_config :: "runtime \<Rightarrow> environ \<Rightarrow> (exn + config) \<times> action list" where
  "validate_config rt getenv =
     (case required_int rt getenv ''API_ID'' of
        Inl e \<Rightarrow> (Inl e, [])
      | Inr v_api_id \<Rightarrow>
     (case required_str getenv ''API_HASH'' of
        Inl e \<Rightarrow> (Inl e, [])
      | Inr v_api_hash \<Rightarrow>
     (case required_str getenv ''GEMINI_API_KEY'' of
        Inl e \<Rightarrow> (Inl e, [])
      | Inr v_key \<Rightarrow>
     (case required_str getenv ''CHANNELS'' of
        Inl e \<Rightarrow> (Inl e, [])
      | Inr v_channels \<Rightarrow>
     (case required_str getenv ''PORTFOLIO_URL'' of
        Inl e \<Rightarrow> (Inl e, [])
      | Inr v_url \<Rightarrow>
        (let chs = process_channels v_channels
         in if chs = []
            then (Inl (ValueError ''No valid channels found in CHANNELS environment variable''), [])
            else (let (cfg, tr) = load_optional rt getenv v_api_id v_api_hash v_key chs v_url
                  in (Inr cfg, tr))))))))"

section \<open>A runtime and inputs for the examples\<close>

text \<open>
  The library functions restricted to ASCII, as CPython computes them there: lower-casing
  of the letters A to Z, decimal \<^verbatim>\<open>int()\<close>, \<^verbatim>\<open>bytes.fromhex\<close> (white space is
  allowed between the bytes, not inside one), and the iteration order of a set of small
  non-negative integers, which is ascending because such an integer is its own hash.
\<close>

definition lower_ascii :: "pystr \<Rightarrow> pystr" where
  "lower_ascii s = map (\<lambda>c. if 65 \<le> c \<and> c \<le> 90 then c + 32 else c) s"

fun int_ascii_acc :: "int \<Rightarrow> pystr \<Rightarrow> int option" where
  "int_ascii_acc n [] = Some n"
| "int_ascii_acc n (c # cs) =
     (if 48 \<le> c \<and> c \<le> 57 then int_ascii_acc (10 * n + int (c - 48)) cs else None)"

definition int_ascii :: "pystr \<Rightarrow> int option" where
  "int_ascii s = (if strip s = [] then None else int_ascii_acc 0 (strip s))"

definition hex_digit :: "nat \<Rightarrow> nat option" where
  "hex_digit c =
     (if 48 \<le> c \<and> c \<le> 57 then Some (c - 48)
      else if 97 \<le> c \<and> c \<le> 102 then Some (c - 87)
      else if 65 \<le> c \<and> c \<le> 70 then Some (c - 55)
      else None)"

fun fromhex_ascii :: "pystr \<Rightarrow> nat list option" where
  "fromhex_ascii [] = Some []"
| "fromhex_ascii [c] = (if c = 32 \<or> (9 \<le> c \<and> c \<le> 13) then Some [] else None)"
| "fromhex_ascii (c # d # cs) =
     (if c = 32 \<or> (9 \<le> c \<and> c \<le> 13) then fromhex_ascii (d # cs)
      else (case (hex_digit c, hex_digit d) of
              (Some a, Some b) \<Rightarrow> map_option ((#) (16 * a + b)) (fromhex_ascii cs)
            | _ \<Rightarrow> None))"

definition ascii_runtime :: runtime where
  "ascii_runtime =
     \<lparr>py_lower = lower_ascii, py_int = int_ascii, bytes_fromhex = fromhex_ascii,
      list_of_set = sorted_list_of_fset,
      re_search_phone = (\<lambda>text. None), re_search_email = (\<lambda>text. None),
      path_join = (\<lambda>a b. a @ 47 # b), module_dir = str ''/app''\<rparr>"

text \<open>A configuration as the loader returns it, and a processor without a model.\<close>

definition example_config :: config where
  "example_config =
     \<lparr>api_id = 12345, api_hash = str ''0123abcd'', gemini_api_key = str ''key'',
      channels = [str ''@jobs''], portfolio_url = str ''https://example.org/p'',
      cv_url = None, proxy_type = None, proxy_server = None, proxy_port = None,
      proxy_secret = None, resume_filename = str ''javad-rostami resume.pdf''\<rparr>"

definition example_processor :: processor where
  "example_processor =
     \<lparr>config = example_config, processed_messages = {||}, last_message_time = Map.empty,
      model = None\<rparr>"

text \<open>
  A world in which every request succeeds: the clock reads 100 seconds, each handle
  resolves to entity 7, the resume file exists in the \<^verbatim>\<open>resume\<close> folder.
\<close>

definition example_env :: env where
  "example_env =
     \<lparr>time_now = 100, get_entity = (\<lambda>u. Inr 7), send_text = None,
      path_exists = (\<lambda>p. p = str ''resume/javad-rostami resume.pdf''), send_file = None,
      send_link = None, generate_content = (\<lambda>p. Inr (str ''Hello''))\<rparr>"

text \<open>
  Two worlds that differ from it in one request: no resume file exists and the link
  message raises; the resume file exists and its request raises a flood wait.
\<close>

definition link_fails_env :: env where
  "link_fails_env = example_env\<lparr>path_exists := (\<lambda>p. False), send_link := Some OtherException\<rparr>"

definition file_flood_env :: env where
  "file_flood_env = example_env\<lparr>send_file := Some (FloodWaitError 60)\<rparr>"

text \<open>
  Two configurations with an MTProto proxy whose secret is not hexadecimal: one with
  server and port, one without. Both are results of \<open>validate_config\<close>, which only warns
  about the missing server.
\<close>

definition mtproto_bad_secret_config :: config where
  "mtproto_bad_secret_config =
     example_config\<lparr>proxy_type := Some (str ''MTProto''),
                    proxy_server := Some (str ''proxy.example.org''), proxy_port := Some 443,
                    proxy_secret := Some (str ''zz'')\<rparr>"

definition mtproto_no_server_config :: config where
  "mtproto_no_server_config =
     example_config\<lparr>proxy_type := Some (str ''mtproto''), proxy_secret := Some (str ''zz'')\<rparr>"

text \<open>
  The same with a server and the port 0, which \<open>validate_config\<close> accepts as well: the
  variable \<^verbatim>\<open>PROXY_PORT=0\<close> is set, converts to the integer 0, and is not replaced.
\<close>

definition mtproto_port_zero_config :: config where
  "mtproto_port_zero_config = mtproto_bad_secret_config\<lparr>proxy_port := Some 0\<rparr>"

text \<open>Two environments: a channel list with blank entries, and one with nothing else.\<close>

definition example_environ :: environ where
  "example_environ var_name =
     (if var_name = ''API_ID'' then Some (str ''12345'')
      else if var_name = ''API_HASH'' then Some (str ''0123abcd'')
      else if var_name = ''GEMINI_API_KEY'' then Some (str ''key'')
      else if var_name = ''CHANNELS'' then Some (str '' @jobs , ,ui_ux_work,'')
      else if var_name = ''PORTFOLIO_URL'' then Some (str ''https://example.org/p'')
      else None)"

definition blank_channels_environ :: environ where
  "blank_channels_environ = example_environ(''CHANNELS'' := Some (str '' , ''))"

text \<open>
  A processor that has replied to the messages 501 to 1500 of one channel, so that its
  seen set holds 1000 identifiers; the event of scenario A, from another channel, has
  the identifier 1.
\<close>

definition full_processor :: processor where
  "full_processor = example_processor\<lparr>processed_messages := fset_of_list [501..1500]\<rparr>"

text \<open>Scenario A of the specification.\<close>

definition example_event :: event where
  "example_event =
     \<lparr>message_text = Some (str ''Looking for a UI/UX designer, contact @jane_doe''),
      message_id = 1\<rparr>"

section \<open>Properties\<close>

subsection \<open>Messages too short to be a job post\<close>

text \<open>
  Claim C10. An event whose text is missing, empty, or has fewer than 10 characters once
  surrounding white space is removed is skipped: whatever the runtime, the world and the
  state of the processor, the handler returns the state unchanged (seen set, rate-limit
  table and all) with an empty trace. So it made no request to the language model or to
  the messaging client, wrote no log record, and its result does not depend on the
  keyword list or on any handle in the text.
\<close>

theorem short_message_skipped:
  assumes "message_text ev = None \<or> message_text ev = Some [] \<or>
           length (strip (the (message_text ev))) < 10"
  shows "process_message rt w s ev = (s, [])"
  using assms by (auto simp: process_message_def)

theorem short_message_skipped_witness:
  "length (strip (the (message_text
      \<lparr>message_text = Some (str ''  UI @bob  ''), message_id = 5\<rparr>))) < 10 \<and>
   process_message ascii_runtime example_env example_processor
     \<lparr>message_text = Some (str ''  UI @bob  ''), message_id = 5\<rparr> = (example_processor, [])"
  using short_message_skipped
    [of "\<lparr>message_text = Some (str ''  UI @bob  ''), message_id = 5\<rparr>"
      ascii_runtime example_env example_processor]
  by (simp add: str_def strip_def lstrip_def rstrip_def isspace_def)

subsection \<open>What one call of the handler does to the seen set\<close>

lemma send_response_processed:
  "send_response_to_user rt w s u m = (r, s', tr) \<Longrightarrow> processed_messages s' = processed_messages s"
  by (auto simp: send_response_to_user_def Let_def split: if_splits sum.splits exn.splits option.splits prod.splits elim!: send_handler.elims)

lemma send_response_no_success_log:
  "send_response_to_user rt w s u m = (r, s', tr) \<Longrightarrow> success_log \<notin> set tr"
  by (auto simp: send_response_to_user_def send_resume_file_def success_log_def Let_def split: if_splits sum.splits exn.splits option.splits prod.splits elim!: send_handler.elims)

lemma generate_no_success_log:
  "generate_custom_message w s t = (m, tr) \<Longrightarrow> success_log \<notin> set tr"
  by (auto simp: generate_custom_message_def success_log_def Let_def split: if_splits sum.splits option.splits)

lemma process_message_seen:
  "message_id ev |\<in>| processed_messages s \<Longrightarrow> process_message rt w s ev = (s, [])"
  by (simp add: process_message_def)

lemma process_message_reply:
  assumes "message_id ev |\<notin>| processed_messages s"
    and "truthy (message_text ev)" and "\<not> length (strip (the (message_text ev))) < 10"
    and "contains_ui_keywords rt (the (message_text ev))"
    and "username (extract_contact_info rt (the (message_text ev))) = Some u"
    and "generate_custom_message w s (the (message_text ev)) = (m, tr3)"
    and "send_response_to_user rt w s u m = (r, s', tr4)"
  shows "process_message rt w s ev =
     (let tr = [Log DEBUG ''Processing message: {message_text[:100]}...'',
                Log INFO ''UI/UX job posting detected'',
                Log INFO ''Found username: {username}''] @ tr3 @ tr4
      in case r of
           Inl e \<Rightarrow> (s', tr @ [Log ERROR ''Error in process_message: {e}''])
         | Inr False \<Rightarrow> (s', tr)
         | Inr True \<Rightarrow>
             (s'\<lparr>processed_messages := cleanup rt (finsert (message_id ev) (processed_messages s'))\<rparr>,
              tr @ [success_log]))"
  using assms by (simp add: process_message_def Let_def success_log_def split: sum.split bool.split)

lemma process_message_no_reply:
  assumes "message_id ev |\<in>| processed_messages s \<or>
     \<not> truthy (message_text ev) \<or> length (strip (the (message_text ev))) < 10 \<or>
     \<not> contains_ui_keywords rt (the (message_text ev)) \<or>
     username (extract_contact_info rt (the (message_text ev))) = None"
  shows "fst (process_message rt w s ev) = s \<and> success_log \<notin> set (snd (process_message rt w s ev))"
  using assms by (auto simp add: process_message_def Let_def success_log_def)

lemma process_message_cases:
  assumes pm: "process_message rt w s ev = (s1, tr1)"
  shows "(success_log \<in> set tr1 \<and>
            processed_messages s1 = cleanup rt (finsert (message_id ev) (processed_messages s))) \<or>
         (success_log \<notin> set tr1 \<and> processed_messages s1 = processed_messages s)"
proof (cases "message_id ev |\<in>| processed_messages s \<or>
     \<not> truthy (message_text ev) \<or> length (strip (the (message_text ev))) < 10 \<or>
     \<not> contains_ui_keywords rt (the (message_text ev)) \<or>
     username (extract_contact_info rt (the (message_text ev))) = None")
  case True
  from process_message_no_reply [OF True, of w] pm show ?thesis by simp
next
  case False
  then obtain u where u: "username (extract_contact_info rt (the (message_text ev))) = Some u"
    by auto
  obtain m tr3 where g: "generate_custom_message w s (the (message_text ev)) = (m, tr3)"
    by (cases "generate_custom_message w s (the (message_text ev))")
  obtain r s' tr4 where sr: "send_response_to_user rt w s u m = (r, s', tr4)"
    by (cases "send_response_to_user rt w s u m") auto
  from sr have p: "processed_messages s' = processed_messages s"
    by (rule send_response_processed)
  from sr have n4: "success_log \<notin> set tr4" by (rule send_response_no_success_log)
  from g have n3: "success_log \<notin> set tr3" by (rule generate_no_success_log)
  from False have a: "message_id ev |\<notin>| processed_messages s" "truthy (message_text ev)"
    "\<not> length (strip (the (message_text ev))) < 10"
    "contains_ui_keywords rt (the (message_text ev))" by auto
  note eq = process_message_reply [OF a u g sr]
  show ?thesis
  proof (cases r)
    case (Inl e)
    with eq pm p n3 n4 show ?thesis by (auto simp: success_log_def)
  next
    case (Inr b)
    with eq pm p n3 n4 show ?thesis by (cases b) (auto simp: success_log_def)
  qed
qed

lemma cleanup_small: "fcard ids \<le> 1000 \<Longrightarrow> cleanup rt ids = ids"
  by (simp add: cleanup_def)

lemma process_message_grows:
  assumes "fcard (processed_messages s) < 1000"
  shows "processed_messages s |\<subseteq>| processed_messages (fst (process_message rt w s ev)) \<and>
         fcard (processed_messages (fst (process_message rt w s ev))) \<le> Suc (fcard (processed_messages s))"
proof -
  obtain s1 tr1 where pm: "process_message rt w s ev = (s1, tr1)"
    by (cases "process_message rt w s ev")
  have "fcard (finsert (message_id ev) (processed_messages s)) \<le> 1000"
    using assms by (simp add: fcard_finsert_if)
  then have c: "cleanup rt (finsert (message_id ev) (processed_messages s)) =
      finsert (message_id ev) (processed_messages s)"
    by (rule cleanup_small)
  from process_message_cases [OF pm] c show ?thesis
    by (auto simp: pm fcard_finsert_if)
qed

lemma run_grows:
  "fcard (processed_messages s) + length steps \<le> 1000 \<Longrightarrow>
   processed_messages s |\<subseteq>| processed_messages (run rt s steps)"
proof (induction steps arbitrary: s)
  case Nil
  then show ?case by simp
next
  case (Cons p steps)
  obtain w ev where p: "p = (w, ev)" by (cases p)
  from Cons.prems have lt: "fcard (processed_messages s) < 1000" by simp
  note g = process_message_grows [OF lt, of rt w ev]
  from g Cons.prems
  have "fcard (processed_messages (fst (process_message rt w s ev))) + length steps \<le> 1000"
    by simp
  from Cons.IH [OF this] g show ?case by (auto simp: p)
qed

subsection \<open>Scenario A, evaluated\<close>

lemma example_text_long:
  "\<not> length (strip (str ''Looking for a UI/UX designer, contact @jane_doe'')) < 10"
  by (simp add: str_def strip_def lstrip_def rstrip_def isspace_def)

lemma example_text_keywords:
  "contains_ui_keywords ascii_runtime (str ''Looking for a UI/UX designer, contact @jane_doe'')"
  by (simp add: contains_ui_keywords_def ascii_runtime_def UI_KEYWORDS_def str_def lower_ascii_def)

lemma example_text_username:
  "username (extract_contact_info ascii_runtime
     (str ''Looking for a UI/UX designer, contact @jane_doe'')) = Some (str ''jane_doe'')"
  by (simp add: extract_contact_info_def str_def handle_char_def)

lemma example_generate:
  "generate_custom_message example_env example_processor t = (get_fallback_message, [])"
  by (simp add: generate_custom_message_def example_processor_def)

lemma example_send:
  "send_response_to_user ascii_runtime example_env example_processor (str ''jane_doe'') m =
     (Inr True,
      example_processor\<lparr>last_message_time := [str ''jane_doe'' \<mapsto> 100]\<rparr>,
      [GetEntity (str ''jane_doe''), SendMessage 7 m, Log INFO ''Message sent to {username}'',
       SendFile 7 (str ''resume/javad-rostami resume.pdf'')
         (resume_caption @ str ''https://example.org/p''),
       Log INFO ''Resume file sent to {username}''])"
  by (simp add: send_response_to_user_def send_resume_file_def possible_paths_def
      example_env_def example_processor_def example_config_def ascii_runtime_def
      rate_limit_delay_def str_def Let_def)

lemma scenario_A:
  "process_message ascii_runtime example_env example_processor example_event =
     (example_processor\<lparr>last_message_time := [str ''jane_doe'' \<mapsto> 100],
                         processed_messages := {|1|}\<rparr>,
      [Log DEBUG ''Processing message: {message_text[:100]}...'',
       Log INFO ''UI/UX job posting detected'',
       Log INFO ''Found username: {username}'',
       GetEntity (str ''jane_doe''), SendMessage 7 get_fallback_message,
       Log INFO ''Message sent to {username}'',
       SendFile 7 (str ''resume/javad-rostami resume.pdf'')
         (resume_caption @ str ''https://example.org/p''),
       Log INFO ''Resume file sent to {username}'',
       success_log])"
proof -
  have a: "message_id example_event |\<notin>| processed_messages example_processor"
    "truthy (message_text example_event)"
    by (simp_all add: example_event_def example_processor_def str_def)
  have t: "the (message_text example_event) =
      str ''Looking for a UI/UX designer, contact @jane_doe''"
    by (simp add: example_event_def)
  have c: "cleanup ascii_runtime {|1|} = {|1|}"
    by (simp add: cleanup_def fcard_finsert_if fcard_fempty)
  show ?thesis
    using process_message_reply [of example_event example_processor ascii_runtime
        "str ''jane_doe''" example_env get_fallback_message "[]", OF a _ _ _ example_generate example_send]
      example_text_long example_text_keywords example_text_username c
    by (simp add: t) (simp add: example_event_def example_processor_def)
qed

subsection \<open>Facts about \<open>send_response_to_user\<close>\<close>

lemma send_response_true:
  assumes "send_response_to_user rt w s u m = (Inr True, s1, tr1)"
  shows "s1 = s\<lparr>last_message_time := (last_message_time s)(u \<mapsto> time_now w)\<rparr>"
  using assms
  by (auto simp: send_response_to_user_def Let_def split: if_splits sum.splits exn.splits option.splits prod.splits elim!: send_handler.elims)

lemma send_response_limited:
  "rate_limited w s u \<Longrightarrow>
   send_response_to_user rt w s u m =
     (Inr False, s, [Log INFO ''Rate limiting: skipping message to {username}''])"
  by (simp add: send_response_to_user_def rate_limited_def)

lemma send_resume_file_returns:
  "fst (send_resume_file rt w s e u) = None \<longleftrightarrow> attachment_step_returns rt w s"
  by (auto simp: send_resume_file_def attachment_step_returns_def resume_found_def Let_def
      split: option.splits)

lemma send_response_text_sent:
  assumes "text_sent w s u" and "get_entity w u = Inr e"
  shows "send_response_to_user rt w s u m =
     (let tr1 = [GetEntity u, SendMessage e m, Log INFO ''Message sent to {username}''];
          (r, tr2) = send_resume_file rt w s e u
      in case r of
           Some x \<Rightarrow> send_handler x s (tr1 @ tr2)
         | None \<Rightarrow>
             (Inr True, s\<lparr>last_message_time := (last_message_time s)(u \<mapsto> time_now w)\<rparr>,
              tr1 @ tr2))"
  using assms
  by (simp add: send_response_to_user_def text_sent_def text_requested_def rate_limited_def
      Let_def split: prod.split option.split)

lemma send_response_text_not_sent:
  assumes "\<not> text_sent w s u" and "send_response_to_user rt w s u m = (r, s', tr)"
  shows "s' = s"
  using assms
  by (auto simp: send_response_to_user_def text_sent_def text_requested_def rate_limited_def
      Let_def split: if_splits sum.splits exn.splits option.splits elim!: send_handler.elims)

lemma link_fails_send:
  "send_response_to_user ascii_runtime link_fails_env example_processor (str ''jane_doe'') m =
     (Inr False, example_processor,
      [GetEntity (str ''jane_doe''), SendMessage 7 m, Log INFO ''Message sent to {username}'',
       Log WARNING ''Resume file not found at any of the expected paths'',
       SendMessage 7 (portfolio_line @ str ''https://example.org/p''),
       Log ERROR ''Error sending message to {username}: {e}''])"
  by (simp add: send_response_to_user_def send_resume_file_def possible_paths_def
      link_fails_env_def example_env_def example_processor_def example_config_def ascii_runtime_def
      rate_limit_delay_def str_def Let_def)

lemma link_fails_text_sent: "text_sent link_fails_env example_processor (str ''jane_doe'')"
  by (simp add: text_sent_def text_requested_def rate_limited_def rate_limit_delay_def
      link_fails_env_def example_env_def example_processor_def)

lemma example_text_sent: "text_sent example_env example_processor (str ''jane_doe'')"
  by (simp add: text_sent_def text_requested_def rate_limited_def rate_limit_delay_def
      example_env_def example_processor_def)

subsection \<open>When the time of a send is recorded\<close>

text \<open>
  Claim C3, amended. Whenever the text message went through and the attachment step
  returns (the attachment was sent; or it failed, or no resume file was found, and then
  the link message was sent or no link is configured), the call returns \<^verbatim>\<open>True\<close> and
  the only change to the state is that the clock reading is recorded against the handle.
  Whenever the text message did not go through (cooldown, unresolved handle, or the
  request raised), the state is unchanged, so no time is recorded.
\<close>

theorem timestamp_recorded_after_text:
  assumes "send_response_to_user rt w s u m = (r, s', tr)"
  shows "(text_sent w s u \<and> attachment_step_returns rt w s \<longrightarrow>
            r = Inr True \<and>
            s' = s\<lparr>last_message_time := (last_message_time s)(u \<mapsto> time_now w)\<rparr>) \<and>
         (\<not> text_sent w s u \<longrightarrow> s' = s)"
proof -
  have recorded: "r = Inr True \<and>
      s' = s\<lparr>last_message_time := (last_message_time s)(u \<mapsto> time_now w)\<rparr>"
    if a: "text_sent w s u \<and> attachment_step_returns rt w s"
  proof -
    from a obtain e where e: "get_entity w u = Inr e"
      by (auto simp: text_sent_def text_requested_def split: sum.splits)
    from a have "fst (send_resume_file rt w s e u) = None"
      by (simp add: send_resume_file_returns)
    then obtain tr2 where "send_resume_file rt w s e u = (None, tr2)"
      by (cases "send_resume_file rt w s e u") auto
    with send_response_text_sent [of w s u e rt m] a e assms
    show ?thesis by (simp add: Let_def)
  qed
  have untouched: "s' = s" if "\<not> text_sent w s u"
    using send_response_text_not_sent [OF that assms] .
  from recorded untouched show ?thesis by blast
qed

theorem timestamp_recorded_after_text_witness:
  "(text_sent example_env example_processor (str ''jane_doe'') \<and>
    attachment_step_returns ascii_runtime example_env example_processor \<and>
    last_message_time (fst (snd (send_response_to_user ascii_runtime example_env
       example_processor (str ''jane_doe'') get_fallback_message))) (str ''jane_doe'') = Some 100) \<and>
   (\<not> text_sent (example_env\<lparr>send_text := Some OtherException\<rparr>) example_processor (str ''jane_doe'') \<and>
    fst (snd (send_response_to_user ascii_runtime (example_env\<lparr>send_text := Some OtherException\<rparr>)
       example_processor (str ''jane_doe'') get_fallback_message)) = example_processor)"
proof -
  have a: "attachment_step_returns ascii_runtime example_env example_processor"
    by (simp add: attachment_step_returns_def example_env_def)
  have b: "\<not> text_sent (example_env\<lparr>send_text := Some OtherException\<rparr>) example_processor
      (str ''jane_doe'')"
    by (simp add: text_sent_def)
  have p: "\<And>x. x = (fst x, fst (snd x), snd (snd x))" by simp
  from timestamp_recorded_after_text [where rt = ascii_runtime and w = example_env
      and s = example_processor and u = "str ''jane_doe''" and m = get_fallback_message, OF p]
    timestamp_recorded_after_text [where rt = ascii_runtime
      and w = "example_env\<lparr>send_text := Some OtherException\<rparr>"
      and s = example_processor and u = "str ''jane_doe''" and m = get_fallback_message, OF p]
    a b example_text_sent
  show ?thesis by (simp add: example_env_def)
qed

text \<open>
  Without the proviso on the attachment step the property fails. With no resume file on
  disk and a link message that raises, the text message has been delivered, yet the
  exception of the link message skips the assignment to the rate-limit table: the handle
  has no entry afterwards.
\<close>

theorem timestamp_recorded_counterexample:
  "text_sent link_fails_env example_processor (str ''jane_doe'') \<and>
   SendMessage 7 get_fallback_message \<in> set (snd (snd (send_response_to_user ascii_runtime
       link_fails_env example_processor (str ''jane_doe'') get_fallback_message))) \<and>
   last_message_time (fst (snd (send_response_to_user ascii_runtime link_fails_env
       example_processor (str ''jane_doe'') get_fallback_message))) (str ''jane_doe'') = None"
  by (simp add: link_fails_send link_fails_text_sent) (simp add: example_processor_def)

subsection \<open>Exceptions raised by the requests\<close>

lemma send_handler_eq:
  "send_handler e s tr =
     (if is_flood_wait e
      then (Inl e, s, tr @ [Log WARNING ''Flood wait error: {e.seconds} seconds''])
      else (Inr False, s, tr @ [Log ERROR ''Error sending message to {username}: {e}'']))"
  by (cases e) simp_all

lemma send_response_raises_flood_only:
  "send_response_to_user rt w s u m = (Inl e, s', tr) \<Longrightarrow> is_flood_wait e"
  by (auto simp: send_response_to_user_def send_handler_eq Let_def
      split: if_splits sum.splits exn.splits option.splits prod.splits)

lemma send_response_text_raises:
  assumes "text_requested w s u" and "send_text w = Some e"
  shows "\<exists>tr0. send_response_to_user rt w s u m = send_handler e s tr0"
  using assms
  by (auto simp: send_response_to_user_def text_requested_def rate_limited_def Let_def
      split: sum.splits)

lemma send_resume_file_link_raises:
  assumes "portfolio_url (config s) \<noteq> []" and "\<not> resume_found rt w s \<or> send_file w \<noteq> None"
  shows "fst (send_resume_file rt w s e u) = send_link w"
  using assms
  by (auto simp: send_resume_file_def resume_found_def Let_def split: option.splits)

lemma send_resume_file_logs_file_error:
  assumes "resume_found rt w s" and "send_file w = Some x"
  shows "Log ERROR ''Error sending resume file to {username}: {e}''
           \<in> set (snd (send_resume_file rt w s e u))"
  using assms
  by (auto simp: send_resume_file_def resume_found_def Let_def split: option.splits)

lemma file_flood_send:
  "send_response_to_user ascii_runtime file_flood_env example_processor (str ''jane_doe'') m =
     (Inr True,
      example_processor\<lparr>last_message_time := [str ''jane_doe'' \<mapsto> 100]\<rparr>,
      [GetEntity (str ''jane_doe''), SendMessage 7 m, Log INFO ''Message sent to {username}'',
       SendFile 7 (str ''resume/javad-rostami resume.pdf'')
         (resume_caption @ str ''https://example.org/p''),
       Log ERROR ''Error sending resume file to {username}: {e}'',
       SendMessage 7 (portfolio_line @ str ''https://example.org/p'')])"
  by (simp add: send_response_to_user_def send_resume_file_def possible_paths_def
      file_flood_env_def example_env_def example_processor_def example_config_def ascii_runtime_def
      rate_limit_delay_def str_def Let_def)

lemma file_flood_requested:
  "file_requested ascii_runtime file_flood_env example_processor (str ''jane_doe'')"
  by (simp add: file_requested_def resume_found_def possible_paths_def text_sent_def
      text_requested_def rate_limited_def rate_limit_delay_def file_flood_env_def example_env_def
      example_processor_def example_config_def ascii_runtime_def str_def)

lemma link_fails_requested:
  "link_requested ascii_runtime link_fails_env example_processor (str ''jane_doe'')"
  by (simp add: link_requested_def resume_found_def possible_paths_def text_sent_def
      text_requested_def rate_limited_def rate_limit_delay_def link_fails_env_def example_env_def
      example_processor_def example_config_def ascii_runtime_def str_def)

text \<open>
  Claim C4, amended. No exception other than a flood wait ever leaves
  \<open>send_response_to_user\<close>. A flood wait raised by the text message or by the link
  message is raised again, unchanged, to the caller; any other exception raised by one
  of these two requests is logged as an error and the call returns \<^verbatim>\<open>False\<close>. An
  exception raised by the attachment request, a flood wait included, does not reach that
  handler: \<open>send_resume_file\<close> catches and logs it and goes on to the link message, and
  the call returns \<^verbatim>\<open>True\<close> when no link is configured or the link message goes
  through.
\<close>

theorem send_exception_handling:
  assumes "send_response_to_user rt w s u m = (r, s', tr)"
  shows "(\<forall>e. r = Inl e \<longrightarrow> is_flood_wait e) \<and>
         (\<forall>e. text_requested w s u \<and> send_text w = Some e \<longrightarrow>
            (if is_flood_wait e then r = Inl e
             else r = Inr False \<and>
                  Log ERROR ''Error sending message to {username}: {e}'' \<in> set tr)) \<and>
         (\<forall>e. link_requested rt w s u \<and> send_link w = Some e \<longrightarrow>
            (if is_flood_wait e then r = Inl e
             else r = Inr False \<and>
                  Log ERROR ''Error sending message to {username}: {e}'' \<in> set tr)) \<and>
         (\<forall>e. file_requested rt w s u \<and> send_file w = Some e \<longrightarrow>
            Log ERROR ''Error sending resume file to {username}: {e}'' \<in> set tr \<and>
            (portfolio_url (config s) = [] \<or> send_link w = None \<longrightarrow> r = Inr True))"
proof -
  have only_flood: "is_flood_wait e" if "r = Inl e" for e
    using assms that by (auto dest: send_response_raises_flood_only)
  have text_case: "if is_flood_wait e then r = Inl e
      else r = Inr False \<and> Log ERROR ''Error sending message to {username}: {e}'' \<in> set tr"
    if "text_requested w s u \<and> send_text w = Some e" for e
  proof -
    from that obtain tr0 where "send_response_to_user rt w s u m = send_handler e s tr0"
      using send_response_text_raises by blast
    with assms show ?thesis by (auto simp: send_handler_eq split: if_splits)
  qed
  have link_case: "if is_flood_wait e then r = Inl e
      else r = Inr False \<and> Log ERROR ''Error sending message to {username}: {e}'' \<in> set tr"
    if a: "link_requested rt w s u \<and> send_link w = Some e" for e
  proof -
    from a have ts: "text_sent w s u" by (simp add: link_requested_def)
    then obtain en where en: "get_entity w u = Inr en"
      by (auto simp: text_sent_def text_requested_def split: sum.splits)
    from a have "fst (send_resume_file rt w s en u) = Some e"
      using send_resume_file_link_raises [of s rt w en u] by (auto simp: link_requested_def)
    then obtain tr2 where "send_resume_file rt w s en u = (Some e, tr2)"
      by (cases "send_resume_file rt w s en u") auto
    with send_response_text_sent [OF ts en, of rt m] assms show ?thesis
      by (auto simp: send_handler_eq Let_def split: if_splits)
  qed
  have file_case: "Log ERROR ''Error sending resume file to {username}: {e}'' \<in> set tr \<and>
      (portfolio_url (config s) = [] \<or> send_link w = None \<longrightarrow> r = Inr True)"
    if a: "file_requested rt w s u \<and> send_file w = Some e" for e
  proof -
    from a have ts: "text_sent w s u" and rf: "resume_found rt w s"
      by (simp_all add: file_requested_def)
    from ts obtain en where en: "get_entity w u = Inr en"
      by (auto simp: text_sent_def text_requested_def split: sum.splits)
    obtain x tr2 where sf: "send_resume_file rt w s en u = (x, tr2)"
      by (cases "send_resume_file rt w s en u")
    from send_resume_file_logs_file_error [OF rf, of e en u] a sf
    have l: "Log ERROR ''Error sending resume file to {username}: {e}'' \<in> set tr2" by simp
    from send_response_text_sent [OF ts en, of rt m] assms sf l
    have 1: "Log ERROR ''Error sending resume file to {username}: {e}'' \<in> set tr"
      by (auto simp: send_handler_eq Let_def split: option.splits if_splits)
    have 2: "r = Inr True" if "portfolio_url (config s) = [] \<or> send_link w = None"
    proof -
      from that have "attachment_step_returns rt w s"
        by (auto simp: attachment_step_returns_def)
      then have "fst (send_resume_file rt w s en u) = None"
        by (simp add: send_resume_file_returns)
      with sf send_response_text_sent [OF ts en, of rt m] assms show ?thesis
        by (auto simp: Let_def)
    qed
    from 1 2 show ?thesis by blast
  qed
  from only_flood text_case link_case file_case show ?thesis by blast
qed

theorem send_exception_handling_witness:
  "(text_requested (example_env\<lparr>send_text := Some (FloodWaitError 30)\<rparr>) example_processor
      (str ''jane_doe'') \<and>
    fst (send_response_to_user ascii_runtime (example_env\<lparr>send_text := Some (FloodWaitError 30)\<rparr>)
      example_processor (str ''jane_doe'') get_fallback_message) = Inl (FloodWaitError 30)) \<and>
   (link_requested ascii_runtime link_fails_env example_processor (str ''jane_doe'') \<and>
    send_link link_fails_env = Some OtherException \<and>
    fst (send_response_to_user ascii_runtime link_fails_env example_processor (str ''jane_doe'')
      get_fallback_message) = Inr False) \<and>
   (file_requested ascii_runtime file_flood_env example_processor (str ''jane_doe'') \<and>
    send_file file_flood_env = Some (FloodWaitError 60) \<and> send_link file_flood_env = None \<and>
    fst (send_response_to_user ascii_runtime file_flood_env example_processor (str ''jane_doe'')
      get_fallback_message) = Inr True)"
proof -
  have p: "\<And>x. x = (fst x, fst (snd x), snd (snd x))" by simp
  have t: "text_requested (example_env\<lparr>send_text := Some (FloodWaitError 30)\<rparr>) example_processor
      (str ''jane_doe'')"
    by (simp add: text_requested_def rate_limited_def rate_limit_delay_def example_env_def
        example_processor_def)
  have l: "send_link link_fails_env = Some OtherException"
    by (simp add: link_fails_env_def)
  have f: "send_file file_flood_env = Some (FloodWaitError 60)" "send_link file_flood_env = None"
    by (simp_all add: file_flood_env_def example_env_def)
  from send_exception_handling [where rt = ascii_runtime
      and w = "example_env\<lparr>send_text := Some (FloodWaitError 30)\<rparr>"
      and s = example_processor and u = "str ''jane_doe''" and m = get_fallback_message, OF p]
    send_exception_handling [where rt = ascii_runtime and w = link_fails_env
      and s = example_processor and u = "str ''jane_doe''" and m = get_fallback_message, OF p]
    send_exception_handling [where rt = ascii_runtime and w = file_flood_env
      and s = example_processor and u = "str ''jane_doe''" and m = get_fallback_message, OF p]
    t l f link_fails_requested file_flood_requested
  show ?thesis by simp
qed

text \<open>
  A flood wait is therefore not raised again from every send. Here the resume file
  exists and its request raises a flood wait of 60 seconds; the call returns \<^verbatim>\<open>True\<close>.
\<close>

theorem flood_wait_reraised_counterexample:
  "file_requested ascii_runtime file_flood_env example_processor (str ''jane_doe'') \<and>
   send_file file_flood_env = Some (FloodWaitError 60) \<and>
   fst (send_response_to_user ascii_runtime file_flood_env example_processor (str ''jane_doe'')
          get_fallback_message) = Inr True"
  by (simp add: file_flood_send file_flood_requested) (simp add: file_flood_env_def)

subsection \<open>The fallback reply\<close>

text \<open>
  Claim C8. \<open>generate_custom_message\<close> returns the fixed fallback template whenever the
  processor has no model or the completion request (reading \<^verbatim>\<open>response.text\<close>
  included) raises an exception; and the fallback is the same string for any two such
  calls, whatever the job posts, the states and the worlds.
\<close>

theorem fallback_on_failure:
  assumes "model s1 = None \<or> (\<exists>e. generate_content w1 (prompt_prefix @ job1 @ prompt_suffix) = Inl e)"
    and "model s2 = None \<or> (\<exists>e. generate_content w2 (prompt_prefix @ job2 @ prompt_suffix) = Inl e)"
  shows "fst (generate_custom_message w1 s1 job1) = get_fallback_message \<and>
         fst (generate_custom_message w2 s2 job2) = fst (generate_custom_message w1 s1 job1)"
  using assms
  by (auto simp: generate_custom_message_def Let_def split: option.splits)

theorem fallback_on_failure_witness:
  "model example_processor = None \<and>
   generate_content (example_env\<lparr>generate_content := (\<lambda>p. Inl OtherException)\<rparr>)
     (prompt_prefix @ str ''UX job'' @ prompt_suffix) = Inl OtherException \<and>
   fst (generate_custom_message example_env example_processor (str ''UI job'')) =
     get_fallback_message \<and>
   fst (generate_custom_message (example_env\<lparr>generate_content := (\<lambda>p. Inl OtherException)\<rparr>)
          (example_processor\<lparr>model := Some (GenerativeModel (str ''gemini-pro''))\<rparr>)
          (str ''UX job'')) =
     fst (generate_custom_message example_env example_processor (str ''UI job''))"
proof -
  have a: "model example_processor = None" by (simp add: example_processor_def)
  have b: "generate_content (example_env\<lparr>generate_content := (\<lambda>p. Inl OtherException)\<rparr>)
     (prompt_prefix @ str ''UX job'' @ prompt_suffix) = Inl OtherException" by simp
  from fallback_on_failure [of example_processor example_env "str ''UI job''"
      "example_processor\<lparr>model := Some (GenerativeModel (str ''gemini-pro''))\<rparr>"
      "example_env\<lparr>generate_content := (\<lambda>p. Inl OtherException)\<rparr>" "str ''UX job''"] a b
  show ?thesis by simp
qed

subsection \<open>Facts about the search for a handle\<close>



subsection \<open>The channel list\<close>

lemma split_not_Nil: "split sep s \<noteq> []"
  by (induction s) (auto split: list.splits)

lemma join_split: "join sep (split sep s) = s"
proof (induction s)
  case Nil
  show ?case by simp
next
  case (Cons c s)
  obtain f fs where sp: "split sep s = f # fs"
    using split_not_Nil [of sep s] by (cases "split sep s") auto
  show ?case
  proof (cases "c = sep")
    case True
    with Cons sp show ?thesis by simp
  next
    case False
    with Cons sp show ?thesis by (cases fs) simp_all
  qed
qed

lemma split_fields_no_sep: "f \<in> set (split sep s) \<Longrightarrow> sep \<notin> set f"
proof (induction s arbitrary: f)
  case Nil
  then show ?case by simp
next
  case (Cons c s)
  obtain g gs where sp: "split sep s = g # gs"
    using split_not_Nil [of sep s] by (cases "split sep s") auto
  show ?case
  proof (cases "c = sep")
    case True
    with Cons sp show ?thesis by auto
  next
    case False
    with Cons.prems sp have "f = c # g \<or> f \<in> set gs" by simp
    with Cons.IH sp False show ?thesis by auto
  qed
qed

lemma rstrip_last: "rstrip s \<noteq> [] \<Longrightarrow> \<not> isspace (last (rstrip s))"
proof -
  assume "rstrip s \<noteq> []"
  then have ne: "dropWhile isspace (rev s) \<noteq> []" by (simp add: rstrip_def)
  then have "\<not> isspace (hd (dropWhile isspace (rev s)))" by (rule hd_dropWhile)
  with ne show ?thesis by (simp add: rstrip_def last_rev)
qed

lemma rstrip_prefix: "s = rstrip s @ rev (takeWhile isspace (rev s))"
proof -
  have "rev s = takeWhile isspace (rev s) @ dropWhile isspace (rev s)" by simp
  then have "rev (rev s) = rev (takeWhile isspace (rev s) @ dropWhile isspace (rev s))"
    by (rule arg_cong)
  then show ?thesis by (simp only: rev_rev_ident rev_append rstrip_def)
qed

lemma rstrip_hd: "rstrip s \<noteq> [] \<Longrightarrow> hd (rstrip s) = hd s"
proof -
  assume ne: "rstrip s \<noteq> []"
  have "hd s = hd (rstrip s @ rev (takeWhile isspace (rev s)))"
    using rstrip_prefix [of s] by simp
  also have "\<dots> = hd (rstrip s)" using ne by (rule hd_append2)
  finally show ?thesis by simp
qed

lemma strip_trimmed:
  assumes "strip s \<noteq> []"
  shows "\<not> isspace (hd (strip s)) \<and> \<not> isspace (last (strip s))"
proof -
  from assms have ne: "rstrip (lstrip s) \<noteq> []" by (simp add: strip_def)
  then have l: "lstrip s \<noteq> []" by (auto simp: rstrip_def)
  then have "\<not> isspace (hd (lstrip s))" unfolding lstrip_def by (rule hd_dropWhile)
  with rstrip_hd [OF ne] rstrip_last [OF ne] show ?thesis by (simp add: strip_def)
qed

lemma process_channels_eq:
  "process_channels v = filter (\<lambda>c. c \<noteq> []) (map strip (split 44 v))"
  by (simp add: process_channels_def filter_map comp_def)

lemma validate_proxy_config_channels:
  "channels (fst (validate_proxy_config rt c)) = channels c"
  by (simp add: validate_proxy_config_def Let_def split_beta split: option.split)

lemma load_optional_channels:
  "channels (fst (load_optional rt getenv a b c chs u)) = chs"
  by (simp add: load_optional_def Let_def split_beta validate_proxy_config_channels)

lemma required_str_Inr: "required_str getenv n = Inr x \<Longrightarrow> getenv n = Some x"
  by (cases "getenv n") (auto simp: required_str_def split: if_splits)

lemma required_str_Inl: "required_str getenv n = Inl e \<Longrightarrow> \<exists>msg. e = ValueError msg"
  by (auto simp: required_str_def split: if_splits)

lemma required_int_Inl: "required_int rt getenv n = Inl e \<Longrightarrow> \<exists>msg. e = ValueError msg"
  by (auto simp: required_int_def split: if_splits option.splits)

lemma validate_config_Inr:
  assumes "validate_config rt getenv = (Inr cfg, tr)"
  shows "\<exists>v. getenv ''CHANNELS'' = Some v \<and> channels cfg = process_channels v \<and>
             process_channels v \<noteq> []"
  using assms load_optional_channels [of rt getenv]
  by (auto simp: validate_config_def Let_def split_beta dest!: required_str_Inr
      split: sum.splits if_splits)

lemma validate_config_no_channels:
  assumes "getenv ''CHANNELS'' = Some v" and "process_channels v = []"
  shows "\<exists>msg. fst (validate_config rt getenv) = Inl (ValueError msg)"
proof -
  have "\<exists>e. fst (validate_config rt getenv) = Inl e \<and> (\<exists>msg. e = ValueError msg)"
    using assms
    by (auto simp: validate_config_def Let_def split_beta
        dest: required_str_Inr required_str_Inl required_int_Inl split: sum.splits)
  then show ?thesis by blast
qed

lemma example_channels_split: "split 44 (str '' @jobs , ,ui_ux_work,'') =
      [str '' @jobs '', str '' '', str ''ui_ux_work'', []]"
    by (simp add: str_def)

lemma example_channels: "process_channels (str '' @jobs , ,ui_ux_work,'') = [str ''@jobs'', str ''ui_ux_work'']"
  by (simp add: process_channels_def example_channels_split) (simp add: str_def strip_def lstrip_def rstrip_def isspace_def)

lemma blank_channels: "process_channels (str '' , '') = []"
  by (simp add: process_channels_def str_def strip_def lstrip_def rstrip_def isspace_def)

lemma example_api_id: "int_ascii (str ''12345'') = Some 12345"
  by (simp add: int_ascii_def str_def strip_def lstrip_def rstrip_def isspace_def)

lemma example_environ_validates:
  "fst (validate_config ascii_runtime example_environ) =
     Inr (fst (load_optional ascii_runtime example_environ 12345 (str ''0123abcd'') (str ''key'')
                 [str ''@jobs'', str ''ui_ux_work''] (str ''https://example.org/p'')))"
proof -
  have r: "required_int ascii_runtime example_environ ''API_ID'' = Inr 12345"
    "required_str example_environ ''API_HASH'' = Inr (str ''0123abcd'')"
    "required_str example_environ ''GEMINI_API_KEY'' = Inr (str ''key'')"
    "required_str example_environ ''CHANNELS'' = Inr (str '' @jobs , ,ui_ux_work,'')"
    "required_str example_environ ''PORTFOLIO_URL'' = Inr (str ''https://example.org/p'')"
    by (simp_all add: required_int_def required_str_def example_environ_def ascii_runtime_def example_api_id)
      (simp_all add: str_def)
  show ?thesis by (simp add: validate_config_def r example_channels split_beta Let_def)
qed

lemma blank_channels_rejected:
  "fst (validate_config ascii_runtime blank_channels_environ) =
     Inl (ValueError ''No valid channels found in CHANNELS environment variable'')"
proof -
  have r: "required_int ascii_runtime blank_channels_environ ''API_ID'' = Inr 12345"
    "required_str blank_channels_environ ''API_HASH'' = Inr (str ''0123abcd'')"
    "required_str blank_channels_environ ''GEMINI_API_KEY'' = Inr (str ''key'')"
    "required_str blank_channels_environ ''CHANNELS'' = Inr (str '' , '')"
    "required_str blank_channels_environ ''PORTFOLIO_URL'' = Inr (str ''https://example.org/p'')"
    by (simp_all add: required_int_def required_str_def blank_channels_environ_def
        example_environ_def ascii_runtime_def example_api_id)
      (simp_all add: str_def)
  show ?thesis by (simp add: validate_config_def r blank_channels)
qed

text \<open>
  Claim C7. Let the variable \<^verbatim>\<open>CHANNELS\<close> hold the string \<open>v\<close>. The fields
  \<open>split 44 v\<close> are what lies between the commas of \<open>v\<close> (code point 44): joined with
  commas they give \<open>v\<close> back, and none contains a comma. Whenever \<open>validate_config\<close>
  returns a configuration, its channel list is the list of the stripped fields without
  the empty ones, in the order of the fields; it is not empty, and each entry is
  non-empty and neither starts nor ends with white space. When no field is left after
  stripping, \<open>validate_config\<close> raises \<^verbatim>\<open>ValueError\<close>.
\<close>

theorem channels_trimmed_in_order:
  assumes "getenv ''CHANNELS'' = Some v"
  shows "join 44 (split 44 v) = v \<and> (\<forall>f\<in>set (split 44 v). 44 \<notin> set f) \<and>
         (\<forall>cfg tr. validate_config rt getenv = (Inr cfg, tr) \<longrightarrow>
            channels cfg = filter (\<lambda>c. c \<noteq> []) (map strip (split 44 v)) \<and>
            channels cfg \<noteq> [] \<and>
            (\<forall>c\<in>set (channels cfg). c \<noteq> [] \<and> \<not> isspace (hd c) \<and> \<not> isspace (last c))) \<and>
         (filter (\<lambda>c. c \<noteq> []) (map strip (split 44 v)) = [] \<longrightarrow>
            (\<exists>msg. fst (validate_config rt getenv) = Inl (ValueError msg)))"
proof (intro conjI allI impI ballI)
  show "join 44 (split 44 v) = v" by (rule join_split)
next
  fix f assume "f \<in> set (split 44 v)"
  then show "44 \<notin> set f" by (rule split_fields_no_sep)
next
  fix cfg tr assume "validate_config rt getenv = (Inr cfg, tr)"
  from validate_config_Inr [OF this] assms
  show "channels cfg = filter (\<lambda>c. c \<noteq> []) (map strip (split 44 v))"
    by (auto simp: process_channels_eq)
next
  fix cfg tr assume "validate_config rt getenv = (Inr cfg, tr)"
  from validate_config_Inr [OF this] show "channels cfg \<noteq> []" by auto
next
  fix cfg tr c assume "validate_config rt getenv = (Inr cfg, tr)" and "c \<in> set (channels cfg)"
  with validate_config_Inr [of rt getenv cfg tr] show "c \<noteq> []"
    by (auto simp: process_channels_def)
next
  fix cfg tr c assume "validate_config rt getenv = (Inr cfg, tr)" and "c \<in> set (channels cfg)"
  with validate_config_Inr [of rt getenv cfg tr]
  obtain f where "c = strip f" "strip f \<noteq> []" by (auto simp: process_channels_def)
  with strip_trimmed [of f] show "\<not> isspace (hd c)" by simp
next
  fix cfg tr c assume "validate_config rt getenv = (Inr cfg, tr)" and "c \<in> set (channels cfg)"
  with validate_config_Inr [of rt getenv cfg tr]
  obtain f where "c = strip f" "strip f \<noteq> []" by (auto simp: process_channels_def)
  with strip_trimmed [of f] show "\<not> isspace (last c)" by simp
next
  assume "filter (\<lambda>c. c \<noteq> []) (map strip (split 44 v)) = []"
  then have "process_channels v = []" by (simp only: process_channels_eq)
  with assms show "\<exists>msg. fst (validate_config rt getenv) = Inl (ValueError msg)"
    by (rule validate_config_no_channels)
qed

theorem channels_trimmed_in_order_witness:
  "example_environ ''CHANNELS'' = Some (str '' @jobs , ,ui_ux_work,'') \<and>
   split 44 (str '' @jobs , ,ui_ux_work,'') = [str '' @jobs '', str '' '', str ''ui_ux_work'', []] \<and>
   map_sum id channels (fst (validate_config ascii_runtime example_environ)) =
     Inr [str ''@jobs'', str ''ui_ux_work''] \<and>
   blank_channels_environ ''CHANNELS'' = Some (str '' , '') \<and>
   filter (\<lambda>c. c \<noteq> []) (map strip (split 44 (str '' , ''))) = [] \<and>
   fst (validate_config ascii_runtime blank_channels_environ) =
     Inl (ValueError ''No valid channels found in CHANNELS environment variable'')"
proof -
  have a: "example_environ ''CHANNELS'' = Some (str '' @jobs , ,ui_ux_work,'')"
    by (simp add: example_environ_def)
  have b: "blank_channels_environ ''CHANNELS'' = Some (str '' , '')"
    by (simp add: blank_channels_environ_def)
  have f: "filter (\<lambda>c. c \<noteq> []) (map strip (split 44 (str '' @jobs , ,ui_ux_work,''))) =
      [str ''@jobs'', str ''ui_ux_work'']"
    using example_channels by (simp add: process_channels_eq)
  have e: "filter (\<lambda>c. c \<noteq> []) (map strip (split 44 (str '' , ''))) = []"
    using blank_channels by (simp add: process_channels_eq)
  obtain cfg tr where v: "validate_config ascii_runtime example_environ = (Inr cfg, tr)"
    using example_environ_validates by (cases "validate_config ascii_runtime example_environ") auto
  from channels_trimmed_in_order [where getenv = example_environ and rt = ascii_runtime, OF a] v f
  have "channels cfg = [str ''@jobs'', str ''ui_ux_work'']" by simp
  with v have c: "map_sum id channels (fst (validate_config ascii_runtime example_environ)) =
      Inr [str ''@jobs'', str ''ui_ux_work'']" by simp
  from a b example_channels_split c e blank_channels_rejected show ?thesis by simp
qed

subsection \<open>The bound on the seen set\<close>

text \<open>
  What holds of the truncation for every iteration order of the set (a list without
  repetition of its elements): it leaves exactly 500 of the identifiers, and so a seen
  set of at most 1000 identifiers has at most 1000 after each call of the handler.
\<close>

lemma cleanup_keeps_500:
  assumes "distinct (list_of_set rt ids)" and "set (list_of_set rt ids) = fset ids"
    and "fcard ids > 1000"
  shows "fcard (cleanup rt ids) = 500 \<and> cleanup rt ids |\<subseteq>| ids"
proof -
  let ?l = "list_of_set rt ids"
  have "card (set ?l) = length ?l" using assms(1) by (rule distinct_card)
  with assms(2) have len: "length ?l = fcard ids" by (simp add: fcard.rep_eq)
  have c: "cleanup rt ids = fset_of_list (drop (length ?l - 500) ?l)"
    using assms(3) by (simp add: cleanup_def Let_def)
  have "distinct (drop (length ?l - 500) ?l)" using assms(1) by simp
  then have "card (set (drop (length ?l - 500) ?l)) = length (drop (length ?l - 500) ?l)"
    by (rule distinct_card)
  then have a: "fcard (cleanup rt ids) = 500"
    using len assms(3) by (simp add: c fcard.rep_eq fset_of_list.rep_eq)
  have "set (drop (length ?l - 500) ?l) \<subseteq> fset ids"
    using assms(2) set_drop_subset [of "length ?l - 500" ?l] by simp
  then have "cleanup rt ids |\<subseteq>| ids"
    by (simp add: c less_eq_fset.rep_eq fset_of_list.rep_eq)
  with a show ?thesis by simp
qed

lemma seen_set_bounded:
  assumes "\<And>ids. distinct (list_of_set rt ids) \<and> set (list_of_set rt ids) = fset ids"
    and "fcard (processed_messages s) \<le> 1000"
  shows "fcard (processed_messages (fst (process_message rt w s ev))) \<le> 1000"
proof -
  obtain s1 tr1 where pm: "process_message rt w s ev = (s1, tr1)"
    by (cases "process_message rt w s ev")
  let ?ids = "finsert (message_id ev) (processed_messages s)"
  have b: "fcard (cleanup rt ?ids) \<le> 1000"
  proof (cases "fcard ?ids > 1000")
    case True
    from assms(1) [of ?ids] have "distinct (list_of_set rt ?ids)"
      "set (list_of_set rt ?ids) = fset ?ids" by simp_all
    from cleanup_keeps_500 [OF this True] show ?thesis by simp
  next
    case False
    then show ?thesis by (simp add: cleanup_def)
  qed
  from process_message_cases [OF pm]
  have "fcard (processed_messages s1) \<le> 1000"
  proof
    assume "success_log \<in> set tr1 \<and> processed_messages s1 = cleanup rt ?ids"
    with b show ?thesis by simp
  next
    assume "success_log \<notin> set tr1 \<and> processed_messages s1 = processed_messages s"
    with assms(2) show ?thesis by simp
  qed
  then show ?thesis by (simp add: pm)
qed

text \<open>The numerals of the example are kept folded.\<close>

lemmas no_unfold = upto.simps upto_rec_numeral

lemma seen_sorted: "sorted (1 # [501..1500::int])"
  by (simp del: no_unfold)

lemma seen_distinct: "distinct (1 # [501..1500::int])"
  by (simp del: no_unfold)

lemma drop_seen: "drop 500 [501..1500::int] = [1001..1500]"
proof -
  have "[501..1500::int] = [501..1001 - 1] @ [1001..1500]"
    by (rule upto_split1) simp_all
  moreover have "length [501..1001 - 1 :: int] = 500" by (simp del: no_unfold)
  ultimately show ?thesis by (simp del: no_unfold)
qed

lemma fcard_seen: "fcard (fset_of_list [501..1500::int]) = 1000"
  by (simp add: fcard.rep_eq fset_of_list.rep_eq del: no_unfold)

lemma sorted_list_of_seen:
  "sorted_list_of_fset (finsert 1 (fset_of_list [501..1500])) = 1 # [501..1500]"
proof -
  have "fset (finsert 1 (fset_of_list [501..1500])) = set (1 # [501..1500::int])"
    by (simp add: fset_of_list.rep_eq del: no_unfold)
  then show ?thesis
    using sorted_list_of_set.idem_if_sorted_distinct [OF seen_sorted seen_distinct]
    by (simp add: sorted_list_of_fset.rep_eq del: no_unfold)
qed

lemma cleanup_full:
  "cleanup ascii_runtime (finsert 1 (fset_of_list [501..1500])) = fset_of_list [1001..1500]"
proof -
  have "fcard (finsert 1 (fset_of_list [501..1500::int])) = 1001"
    by (simp add: fcard_finsert_if fcard_seen fset_of_list_elem del: no_unfold)
  then show ?thesis
    by (simp add: cleanup_def ascii_runtime_def sorted_list_of_seen drop_seen Let_def
        del: no_unfold)
qed

lemma full_generate:
  "generate_custom_message example_env full_processor t = (get_fallback_message, [])"
  by (simp add: generate_custom_message_def full_processor_def example_processor_def
      del: no_unfold)

lemma full_send:
  "send_response_to_user ascii_runtime example_env full_processor (str ''jane_doe'') m =
     (Inr True,
      full_processor\<lparr>last_message_time := [str ''jane_doe'' \<mapsto> 100]\<rparr>,
      [GetEntity (str ''jane_doe''), SendMessage 7 m, Log INFO ''Message sent to {username}'',
       SendFile 7 (str ''resume/javad-rostami resume.pdf'')
         (resume_caption @ str ''https://example.org/p''),
       Log INFO ''Resume file sent to {username}''])"
  by (simp add: send_response_to_user_def send_resume_file_def possible_paths_def
      example_env_def full_processor_def example_processor_def example_config_def
      ascii_runtime_def rate_limit_delay_def str_def Let_def del: no_unfold)

lemma full_scenario:
  "process_message ascii_runtime example_env full_processor example_event =
     (full_processor\<lparr>last_message_time := [str ''jane_doe'' \<mapsto> 100],
                      processed_messages := fset_of_list [1001..1500]\<rparr>,
      [Log DEBUG ''Processing message: {message_text[:100]}...'',
       Log INFO ''UI/UX job posting detected'',
       Log INFO ''Found username: {username}'',
       GetEntity (str ''jane_doe''), SendMessage 7 get_fallback_message,
       Log INFO ''Message sent to {username}'',
       SendFile 7 (str ''resume/javad-rostami resume.pdf'')
         (resume_caption @ str ''https://example.org/p''),
       Log INFO ''Resume file sent to {username}'',
       success_log])"
proof -
  have a: "message_id example_event |\<notin>| processed_messages full_processor"
    "truthy (message_text example_event)"
    by (simp_all add: example_event_def full_processor_def fset_of_list_elem str_def
        del: no_unfold)
  have t: "the (message_text example_event) =
      str ''Looking for a UI/UX designer, contact @jane_doe''"
    by (simp add: example_event_def)
  have i: "message_id example_event = 1" by (simp add: example_event_def)
  have p: "processed_messages (full_processor\<lparr>last_message_time := [str ''jane_doe'' \<mapsto> 100]\<rparr>) =
      fset_of_list [501..1500]"
    by (simp add: full_processor_def del: no_unfold)
  show ?thesis
    using process_message_reply [of example_event full_processor ascii_runtime
        "str ''jane_doe''" example_env get_fallback_message "[]", OF a _ _ _ full_generate full_send]
      example_text_long example_text_keywords example_text_username
    by (simp add: t i p cleanup_full del: no_unfold)
qed

text \<open>
  Claim C5 says that the truncation keeps the 500 identifiers added most recently, as
  the comment in the source does (``keep only the last 500 messages''). A Python set
  has no insertion order, and \<^verbatim>\<open>list(s)[-500:]\<close> takes the last 500 in hash order.
  The processor has replied to 501, ..., 1500 and now replies to the message with
  identifier 1: the set reaches 1001 elements, CPython lists it in ascending order, and
  the truncation keeps 1001, ..., 1500. The identifier just added, the most recent of
  all, is not among them, so the message would be answered again.
\<close>

theorem newest_id_dropped_by_truncation:
  "fcard (processed_messages full_processor) = 1000 \<and>
   message_id example_event |\<notin>| processed_messages full_processor \<and>
   success_log \<in> set (snd (process_message ascii_runtime example_env full_processor example_event)) \<and>
   processed_messages (fst (process_message ascii_runtime example_env full_processor example_event)) =
     fset_of_list [1001..1500] \<and>
   message_id example_event |\<notin>|
     processed_messages (fst (process_message ascii_runtime example_env full_processor example_event))"
proof -
  have a: "fcard (processed_messages full_processor) = 1000"
    by (simp add: full_processor_def fcard_seen del: no_unfold)
  have b: "message_id example_event |\<notin>| processed_messages full_processor"
    by (simp add: example_event_def full_processor_def fset_of_list_elem del: no_unfold)
  have c: "message_id example_event |\<notin>| fset_of_list [1001..1500]"
    by (simp add: example_event_def fset_of_list_elem del: no_unfold)
  from a b c show ?thesis by (simp add: full_scenario del: no_unfold)
qed

theorem newest_id_dropped_by_truncation_witness:
  "success_log \<in> set (snd (process_message ascii_runtime example_env full_processor example_event)) \<and>
   message_id example_event |\<notin>|
     processed_messages (fst (process_message ascii_runtime example_env full_processor example_event))"
  using newest_id_dropped_by_truncation by blast

subsection \<open>Deduplication by message identifier\<close>

lemma send_true_sends:
  assumes "send_response_to_user rt w s u m = (Inr True, s1, tr1)"
  shows "text_sent w s u \<and> (\<exists>e. get_entity w u = Inr e \<and> SendMessage e m \<in> set tr1)"
  using assms
  by (auto simp: send_response_to_user_def text_sent_def text_requested_def rate_limited_def
      send_handler_eq Let_def split: if_splits sum.splits exn.splits option.splits prod.splits)

lemma success_sends:
  assumes pm: "process_message rt w s ev = (s1, tr1)" and sl: "success_log \<in> set tr1"
  shows "\<exists>e m. SendMessage e m \<in> set tr1"
proof (cases "message_id ev |\<in>| processed_messages s \<or>
     \<not> truthy (message_text ev) \<or> length (strip (the (message_text ev))) < 10 \<or>
     \<not> contains_ui_keywords rt (the (message_text ev)) \<or>
     username (extract_contact_info rt (the (message_text ev))) = None")
  case True
  from process_message_no_reply [OF True, of w] pm sl show ?thesis by simp
next
  case False
  then obtain u where u: "username (extract_contact_info rt (the (message_text ev))) = Some u"
    by auto
  obtain m tr3 where g: "generate_custom_message w s (the (message_text ev)) = (m, tr3)"
    by (cases "generate_custom_message w s (the (message_text ev))")
  obtain r s' tr4 where sr: "send_response_to_user rt w s u m = (r, s', tr4)"
    by (cases "send_response_to_user rt w s u m") auto
  from sr have n4: "success_log \<notin> set tr4" by (rule send_response_no_success_log)
  from g have n3: "success_log \<notin> set tr3" by (rule generate_no_success_log)
  from False have a: "message_id ev |\<notin>| processed_messages s" "truthy (message_text ev)"
    "\<not> length (strip (the (message_text ev))) < 10"
    "contains_ui_keywords rt (the (message_text ev))" by auto
  note eq = process_message_reply [OF a u g sr]
  show ?thesis
  proof (cases r)
    case (Inl e)
    with eq pm sl n3 n4 show ?thesis by (auto simp: success_log_def)
  next
    case (Inr b)
    show ?thesis
    proof (cases b)
      case True
      with Inr sr have "send_response_to_user rt w s u m = (Inr True, s', tr4)" by simp
      from send_true_sends [OF this] obtain e where "SendMessage e m \<in> set tr4" by blast
      with eq pm Inr True show ?thesis by (auto simp: Let_def)
    next
      case False
      with Inr eq pm sl n3 n4 show ?thesis by (auto simp: success_log_def)
    qed
  qed
qed

lemma not_truncates_grows:
  assumes "\<not> truncates rt w s ev"
  shows "processed_messages s |\<subseteq>| processed_messages (fst (process_message rt w s ev))"
proof -
  obtain s1 tr1 where pm: "process_message rt w s ev = (s1, tr1)"
    by (cases "process_message rt w s ev")
  from process_message_cases [OF pm] show ?thesis
  proof
    assume a: "success_log \<in> set tr1 \<and>
      processed_messages s1 = cleanup rt (finsert (message_id ev) (processed_messages s))"
    with assms pm have "fcard (finsert (message_id ev) (processed_messages s)) \<le> 1000"
      by (simp add: truncates_def)
    then have "cleanup rt (finsert (message_id ev) (processed_messages s)) =
        finsert (message_id ev) (processed_messages s)" by (rule cleanup_small)
    with a pm show ?thesis by auto
  next
    assume "success_log \<notin> set tr1 \<and> processed_messages s1 = processed_messages s"
    with pm show ?thesis by simp
  qed
qed

lemma never_truncates_grows:
  "never_truncates rt s steps \<Longrightarrow>
   processed_messages s |\<subseteq>| processed_messages (run rt s steps)"
proof (induction steps arbitrary: s)
  case Nil
  then show ?case by simp
next
  case (Cons p steps)
  obtain w ev where p: "p = (w, ev)" by (cases p)
  from Cons.prems p have nt: "\<not> truncates rt w s ev"
    and rest: "never_truncates rt (fst (process_message rt w s ev)) steps" by simp_all
  from Cons.IH [OF rest] not_truncates_grows [OF nt] show ?case by (auto simp: p)
qed

lemma link_fails_generate:
  "generate_custom_message link_fails_env example_processor t = (get_fallback_message, [])"
  by (simp add: generate_custom_message_def example_processor_def)

lemma link_fails_scenario:
  "process_message ascii_runtime link_fails_env example_processor example_event =
     (example_processor,
      [Log DEBUG ''Processing message: {message_text[:100]}...'',
       Log INFO ''UI/UX job posting detected'',
       Log INFO ''Found username: {username}'',
       GetEntity (str ''jane_doe''), SendMessage 7 get_fallback_message,
       Log INFO ''Message sent to {username}'',
       Log WARNING ''Resume file not found at any of the expected paths'',
       SendMessage 7 (portfolio_line @ str ''https://example.org/p''),
       Log ERROR ''Error sending message to {username}: {e}''])"
proof -
  have a: "message_id example_event |\<notin>| processed_messages example_processor"
    "truthy (message_text example_event)"
    by (simp_all add: example_event_def example_processor_def str_def)
  have t: "the (message_text example_event) =
      str ''Looking for a UI/UX designer, contact @jane_doe''"
    by (simp add: example_event_def)
  show ?thesis
    using process_message_reply [of example_event example_processor ascii_runtime
        "str ''jane_doe''" link_fails_env get_fallback_message "[]", OF a _ _ _
        link_fails_generate link_fails_send]
      example_text_long example_text_keywords example_text_username
    by (simp add: t)
qed

text \<open>
  Claim C1, amended. Suppose a call of the handler for an event completed its reply: it
  wrote the success record, which happens only after \<open>send_response_to_user\<close> returned
  \<^verbatim>\<open>True\<close>. Then a message was sent in that call. If moreover the truncation of the
  seen set happened neither in this call nor in any call for the events that follow
  (\<open>steps\<close>, arbitrary), the identifier is recorded in the seen set, and a later event
  with the same identifier, in whatever world, is recognised as processed: the handler
  returns the state unchanged with an empty trace, so no classification result is used,
  nothing is generated and nothing is sent. One identifier thus gets at most one
  completed reply before a truncation.
\<close>

theorem completed_reply_not_repeated:
  assumes "process_message rt w1 s ev1 = (s1, tr1)"
    and "success_log \<in> set tr1"
    and "\<not> truncates rt w1 s ev1"
    and "never_truncates rt s1 steps"
    and "message_id ev2 = message_id ev1"
  shows "(\<exists>e m. SendMessage e m \<in> set tr1) \<and>
         message_id ev1 |\<in>| processed_messages s1 \<and>
         process_message rt w2 (run rt s1 steps) ev2 = (run rt s1 steps, [])"
proof -
  from assms(1,2) have sent: "\<exists>e m. SendMessage e m \<in> set tr1" by (rule success_sends)
  from assms(1,2,3) have "fcard (finsert (message_id ev1) (processed_messages s)) \<le> 1000"
    by (simp add: truncates_def)
  then have c: "cleanup rt (finsert (message_id ev1) (processed_messages s)) =
      finsert (message_id ev1) (processed_messages s)"
    by (rule cleanup_small)
  from process_message_cases [OF assms(1)] assms(2) c
  have m1: "message_id ev1 |\<in>| processed_messages s1" by auto
  from assms(4) have "processed_messages s1 |\<subseteq>| processed_messages (run rt s1 steps)"
    by (rule never_truncates_grows)
  with m1 assms(5) have "message_id ev2 |\<in>| processed_messages (run rt s1 steps)" by auto
  then have "process_message rt w2 (run rt s1 steps) ev2 = (run rt s1 steps, [])"
    by (rule process_message_seen)
  with sent m1 show ?thesis by simp
qed

theorem completed_reply_not_repeated_witness:
  "success_log \<in> set (snd (process_message ascii_runtime example_env example_processor example_event)) \<and>
   \<not> truncates ascii_runtime example_env example_processor example_event \<and>
   never_truncates ascii_runtime
     (fst (process_message ascii_runtime example_env example_processor example_event))
     [(example_env, example_event)] \<and>
   SendMessage 7 get_fallback_message \<in>
     set (snd (process_message ascii_runtime example_env example_processor example_event)) \<and>
   message_id example_event |\<in>|
     processed_messages (fst (process_message ascii_runtime example_env example_processor example_event)) \<and>
   process_message ascii_runtime example_env
     (run ascii_runtime (fst (process_message ascii_runtime example_env example_processor example_event))
        [(example_env, example_event)]) example_event =
   (run ascii_runtime (fst (process_message ascii_runtime example_env example_processor example_event))
        [(example_env, example_event)], [])"
proof -
  let ?s1 = "fst (process_message ascii_runtime example_env example_processor example_event)"
  have h1: "process_message ascii_runtime example_env example_processor example_event =
      (?s1, snd (process_message ascii_runtime example_env example_processor example_event))"
    by simp
  have h2: "success_log \<in> set (snd (process_message ascii_runtime example_env example_processor example_event))"
    by (simp add: scenario_A)
  have h3: "\<not> truncates ascii_runtime example_env example_processor example_event"
    by (simp add: truncates_def example_processor_def example_event_def fcard_finsert_if fcard_fempty)
  have seen: "message_id example_event |\<in>| processed_messages ?s1"
    by (simp add: scenario_A) (simp add: example_event_def)
  have again: "process_message ascii_runtime example_env ?s1 example_event = (?s1, [])"
    using seen by (rule process_message_seen)
  have h4: "never_truncates ascii_runtime ?s1 [(example_env, example_event)]"
    by (simp add: truncates_def again success_log_def)
  have h5: "SendMessage 7 get_fallback_message \<in>
     set (snd (process_message ascii_runtime example_env example_processor example_event))"
    by (simp add: scenario_A)
  from completed_reply_not_repeated [OF h1 h2 h3 h4 refl, of example_env] h2 h3 h4 h5
  show ?thesis by simp
qed

text \<open>
  The property does not hold of every reply that went out. With no resume file on disk
  and a link message that raises, the text of the reply is sent, the exception passes the
  line that records the identifier, and the same event, handled again with an empty seen
  set and no truncation anywhere near, sends the text a second time.
\<close>

theorem reply_sent_twice_counterexample:
  "message_id example_event |\<notin>| processed_messages example_processor \<and>
   fcard (processed_messages example_processor) = 0 \<and>
   SendMessage 7 get_fallback_message \<in>
     set (snd (process_message ascii_runtime link_fails_env example_processor example_event)) \<and>
   SendMessage 7 get_fallback_message \<in>
     set (snd (process_message ascii_runtime link_fails_env
       (fst (process_message ascii_runtime link_fails_env example_processor example_event))
       example_event))"
  by (simp add: link_fails_scenario) (simp add: example_processor_def example_event_def fcard_fempty)

subsection \<open>The cooldown per recipient\<close>

lemma link_fails_later_send:
  "send_response_to_user ascii_runtime (link_fails_env\<lparr>time_now := 101\<rparr>) example_processor
     (str ''jane_doe'') m =
     (Inr False, example_processor,
      [GetEntity (str ''jane_doe''), SendMessage 7 m, Log INFO ''Message sent to {username}'',
       Log WARNING ''Resume file not found at any of the expected paths'',
       SendMessage 7 (portfolio_line @ str ''https://example.org/p''),
       Log ERROR ''Error sending message to {username}: {e}''])"
  by (simp add: send_response_to_user_def send_resume_file_def possible_paths_def
      link_fails_env_def example_env_def example_processor_def example_config_def ascii_runtime_def
      rate_limit_delay_def str_def Let_def)

lemma link_fails_later_text_sent:
  "text_sent (link_fails_env\<lparr>time_now := 101\<rparr>) example_processor (str ''jane_doe'')"
  by (simp add: text_sent_def text_requested_def rate_limited_def rate_limit_delay_def
      link_fails_env_def example_env_def example_processor_def)

text \<open>
  Claim C2, amended. If \<open>send_response_to_user\<close> returned \<^verbatim>\<open>True\<close> for a handle when
  the clock read \<open>time_now w1\<close>, then the text message was requested and went through
  in that call, and that time is the entry of the handle in the rate-limit table; and in
  every later state that still has this entry, a call for the same handle at a clock
  reading less than 30 seconds later makes no request at all: its trace is the single log
  record of the skip, it returns \<^verbatim>\<open>False\<close> and leaves the state as it was. After a
  completed send, a second call within the window delivers nothing.
\<close>

theorem cooldown_after_completed_send:
  assumes "send_response_to_user rt w1 s u m1 = (Inr True, s1, tr1)"
    and "last_message_time s2 u = last_message_time s1 u"
    and "time_now w2 - time_now w1 < 30"
  shows "text_sent w1 s u \<and>
         (\<exists>e. get_entity w1 u = Inr e \<and> SendMessage e m1 \<in> set tr1) \<and>
         last_message_time s1 u = Some (time_now w1) \<and>
         send_response_to_user rt w2 s2 u m2 =
           (Inr False, s2, [Log INFO ''Rate limiting: skipping message to {username}''])"
proof -
  note sent = send_true_sends [OF assms(1)]
  from send_response_true [OF assms(1)]
  have t: "last_message_time s1 u = Some (time_now w1)" by simp
  with assms(2,3) have "rate_limited w2 s2 u"
    by (simp add: rate_limited_def rate_limit_delay_def)
  then have "send_response_to_user rt w2 s2 u m2 =
      (Inr False, s2, [Log INFO ''Rate limiting: skipping message to {username}''])"
    by (rule send_response_limited)
  with sent t show ?thesis by simp
qed

theorem cooldown_after_completed_send_witness:
  "fst (send_response_to_user ascii_runtime example_env example_processor (str ''jane_doe'')
          get_fallback_message) = Inr True \<and>
   time_now (example_env\<lparr>time_now := 120\<rparr>) - time_now example_env < 30 \<and>
   text_sent example_env example_processor (str ''jane_doe'') \<and>
   SendMessage 7 get_fallback_message \<in> set (snd (snd (send_response_to_user ascii_runtime
     example_env example_processor (str ''jane_doe'') get_fallback_message))) \<and>
   send_response_to_user ascii_runtime (example_env\<lparr>time_now := 120\<rparr>)
     (example_processor\<lparr>last_message_time := [str ''jane_doe'' \<mapsto> 100]\<rparr>)
     (str ''jane_doe'') (str ''again'') =
   (Inr False, example_processor\<lparr>last_message_time := [str ''jane_doe'' \<mapsto> 100]\<rparr>,
    [Log INFO ''Rate limiting: skipping message to {username}''])"
proof -
  have h: "time_now (example_env\<lparr>time_now := 120\<rparr>) - time_now example_env < 30"
    by (simp add: example_env_def)
  from cooldown_after_completed_send [OF example_send refl h] h show ?thesis
    by (simp add: example_send)
qed

text \<open>
  A delivery that is not completed starts no cooldown. With no resume file on disk and a
  link message that raises, the text message is delivered, the call returns \<^verbatim>\<open>False\<close>
  without an entry in the table, and a call one second later delivers the text again.
\<close>

theorem delivered_twice_in_window_counterexample:
  "text_sent link_fails_env example_processor (str ''jane_doe'') \<and>
   SendMessage 7 get_fallback_message \<in> set (snd (snd (send_response_to_user ascii_runtime
     link_fails_env example_processor (str ''jane_doe'') get_fallback_message))) \<and>
   time_now (link_fails_env\<lparr>time_now := 101\<rparr>) - time_now link_fails_env < 30 \<and>
   text_sent (link_fails_env\<lparr>time_now := 101\<rparr>)
     (fst (snd (send_response_to_user ascii_runtime link_fails_env example_processor
        (str ''jane_doe'') get_fallback_message))) (str ''jane_doe'') \<and>
   SendMessage 7 get_fallback_message \<in> set (snd (snd (send_response_to_user ascii_runtime
     (link_fails_env\<lparr>time_now := 101\<rparr>)
     (fst (snd (send_response_to_user ascii_runtime link_fails_env example_processor
        (str ''jane_doe'') get_fallback_message)))
     (str ''jane_doe'') get_fallback_message)))"
  by (simp add: link_fails_send link_fails_later_send link_fails_text_sent
      link_fails_later_text_sent)
    (simp add: link_fails_env_def example_env_def)

subsection \<open>An MTProto secret that is not hexadecimal\<close>

lemma port_zero_from_validation:
  "fst (validate_proxy_config ascii_runtime mtproto_port_zero_config) = mtproto_port_zero_config"
  by (simp add: validate_proxy_config_def mtproto_port_zero_config_def
      mtproto_bad_secret_config_def example_config_def ascii_runtime_def lower_ascii_def
      str_def Let_def)

text \<open>
  Claim C6, amended. Take any configuration whose proxy type is \<^verbatim>\<open>mtproto\<close> once
  lower-cased and whose secret is missing or rejected by \<^verbatim>\<open>bytes.fromhex\<close>. Then
  \<open>get_proxy_config\<close> returns \<^verbatim>\<open>None\<close> (it has no way to raise: the \<^verbatim>\<open>ValueError\<close>
  of the conversion is caught), and \<open>create_client\<close> builds the client without a proxy
  and says so in its log. The trace of \<open>get_proxy_config\<close> is exactly one error record
  when type, server and port are all true in Python's sense (non-empty strings, a port
  other than 0), and it is empty in every other case: the function then returns at its
  first test, before it looks at the secret.
\<close>

theorem mtproto_bad_secret_gives_no_proxy:
  assumes "proxy_type cfg = Some t" and "py_lower rt t = str ''mtproto''"
    and "case proxy_secret cfg of None \<Rightarrow> True | Some x \<Rightarrow> bytes_fromhex rt x = None"
  shows "fst (get_proxy_config rt cfg) = None \<and>
         proxy (fst (create_client rt cfg)) = None \<and>
         last (snd (create_client rt cfg)) = Log INFO ''Creating client without proxy'' \<and>
         (t \<noteq> [] \<and> truthy (proxy_server cfg) \<and> truthy_int (proxy_port cfg) \<longrightarrow>
            (\<exists>msg. snd (get_proxy_config rt cfg) = [Log ERROR msg])) \<and>
         (\<not> (t \<noteq> [] \<and> truthy (proxy_server cfg) \<and> truthy_int (proxy_port cfg)) \<longrightarrow>
            snd (get_proxy_config rt cfg) = [])"
proof -
  have ne: "str ''mtproto'' \<noteq> str ''socks5''" "str ''mtproto'' \<noteq> str ''http''"
    by (simp_all add: str_def)
  from assms ne have a: "fst (get_proxy_config rt cfg) = None"
    by (auto simp: get_proxy_config_def Let_def split: option.splits)
  then have b: "proxy (fst (create_client rt cfg)) = None \<and>
      last (snd (create_client rt cfg)) = Log INFO ''Creating client without proxy''"
    by (cases "get_proxy_config rt cfg") (simp add: create_client_def)
  from assms ne have c: "\<exists>msg. snd (get_proxy_config rt cfg) = [Log ERROR msg]"
    if "t \<noteq> [] \<and> truthy (proxy_server cfg) \<and> truthy_int (proxy_port cfg)"
    using that by (auto simp: get_proxy_config_def Let_def str_def split: option.splits)
  from assms(1) have d: "snd (get_proxy_config rt cfg) = []"
    if "\<not> (t \<noteq> [] \<and> truthy (proxy_server cfg) \<and> truthy_int (proxy_port cfg))"
    using that by (auto simp: get_proxy_config_def)
  from a b c d show ?thesis by blast
qed

theorem mtproto_bad_secret_gives_no_proxy_witness:
  "py_lower ascii_runtime (str ''MTProto'') = str ''mtproto'' \<and>
   bytes_fromhex ascii_runtime (str ''zz'') = None \<and> str ''MTProto'' \<noteq> [] \<and>
   truthy (proxy_server mtproto_bad_secret_config) \<and>
   truthy_int (proxy_port mtproto_bad_secret_config) \<and>
   get_proxy_config ascii_runtime mtproto_bad_secret_config =
     (None, [Log ERROR ''Invalid proxy_secret format. Must be hex string.'']) \<and>
   proxy (fst (create_client ascii_runtime mtproto_bad_secret_config)) = None \<and>
   proxy_port mtproto_port_zero_config = Some 0 \<and>
   \<not> truthy_int (proxy_port mtproto_port_zero_config) \<and>
   get_proxy_config ascii_runtime mtproto_port_zero_config = (None, [])"
proof -
  have a: "proxy_type mtproto_bad_secret_config = Some (str ''MTProto'')"
    "proxy_type mtproto_port_zero_config = Some (str ''MTProto'')"
    by (simp_all add: mtproto_bad_secret_config_def mtproto_port_zero_config_def)
  have b: "py_lower ascii_runtime (str ''MTProto'') = str ''mtproto''"
    by (simp add: ascii_runtime_def lower_ascii_def str_def)
  have z: "bytes_fromhex ascii_runtime (str ''zz'') = None"
    by (simp add: ascii_runtime_def str_def hex_digit_def)
  have c: "case proxy_secret mtproto_bad_secret_config of None \<Rightarrow> True
      | Some x \<Rightarrow> bytes_fromhex ascii_runtime x = None"
    "case proxy_secret mtproto_port_zero_config of None \<Rightarrow> True
      | Some x \<Rightarrow> bytes_fromhex ascii_runtime x = None"
    using z by (simp_all add: mtproto_bad_secret_config_def mtproto_port_zero_config_def)
  have d: "truthy (proxy_server mtproto_bad_secret_config)"
    "truthy_int (proxy_port mtproto_bad_secret_config)"
    by (simp_all add: mtproto_bad_secret_config_def str_def)
  have e: "get_proxy_config ascii_runtime mtproto_bad_secret_config =
     (None, [Log ERROR ''Invalid proxy_secret format. Must be hex string.''])"
    using b z by (simp add: get_proxy_config_def mtproto_bad_secret_config_def Let_def)
      (simp add: str_def)
  have f: "proxy_port mtproto_port_zero_config = Some 0"
    "\<not> truthy_int (proxy_port mtproto_port_zero_config)"
    by (simp_all add: mtproto_port_zero_config_def)
  from mtproto_bad_secret_gives_no_proxy [OF a(2) b c(2)] f
  have g: "get_proxy_config ascii_runtime mtproto_port_zero_config = (None, [])"
    by (cases "get_proxy_config ascii_runtime mtproto_port_zero_config") simp
  from mtproto_bad_secret_gives_no_proxy [OF a(1) b c(1)] b z d e f g show ?thesis
    by (simp add: str_def)
qed

text \<open>
  The error record is thus not written for every such configuration. Without a server
  and a port the function returns \<^verbatim>\<open>None\<close> at its first test and logs nothing; the
  only record of client creation is informational.
\<close>

theorem mtproto_error_logged_counterexample:
  "proxy_type mtproto_no_server_config = Some (str ''mtproto'') \<and>
   py_lower ascii_runtime (str ''mtproto'') = str ''mtproto'' \<and>
   proxy_secret mtproto_no_server_config = Some (str ''zz'') \<and>
   bytes_fromhex ascii_runtime (str ''zz'') = None \<and>
   get_proxy_config ascii_runtime mtproto_no_server_config = (None, []) \<and>
   snd (create_client ascii_runtime mtproto_no_server_config) =
     [Log INFO ''Creating client without proxy'']"
  by (simp add: create_client_def get_proxy_config_def mtproto_no_server_config_def
      example_config_def ascii_runtime_def lower_ascii_def hex_digit_def str_def)

subsection \<open>Handles taken from email addresses\<close>







end
